theory Spec2Isabelle
  imports Complex_Main
begin

section \<open>Python values\<close>

text \<open>
  The integration handles what \<^verbatim>\<open>resp.json()\<close> returns: parsed JSON, typed \<^verbatim>\<open>Any\<close> in the source.
  \<open>JNull\<close> is Python's \<^verbatim>\<open>None\<close>; an object keeps its items in insertion order, and a lookup
  takes the first item with the key. A float is written by its exact value; Python's parser
  also accepts the literals NaN and Infinity, so they are values too.
\<close>

datatype pyfloat = Finite rat | PosInf | NegInf | NaN

datatype json =
    JNull
  | JBool bool
  | JInt int
  | JFloat pyfloat
  | JStr string
  | JList "json list"
  | JObj "(string \<times> json) list"

text \<open>
  Exceptions are values. \<open>ClientError\<close> stands for \<^verbatim>\<open>aiohttp.ClientError\<close> and its subclasses,
  \<open>OtherException\<close> for anything else a library call raises; both carry \<^verbatim>\<open>str(err)\<close>.
  \<open>ActivityWatchApiConnectionError\<close> is a subclass of \<open>ActivityWatchApiError\<close> in the source, so a
  handler for the latter also takes the former.
\<close>

datatype exn =
    ActivityWatchApiError string
  | ActivityWatchApiConnectionError string
  | UpdateFailed string
  | ClientError string
  | OtherException string
  | AttributeError
  | TypeError
  | KeyError
  | IndexError
  | ValueError
  | OverflowError

text \<open>
  Built-ins of the interpreter whose exact result the model leaves open; every function that
  depends on one takes the record as its first argument, and the theorems hold for every
  such record.
  \<^item> \<open>lower\<close>: \<^verbatim>\<open>str.lower\<close>;
  \<^item> \<open>ne\<close>: the operator \<^verbatim>\<open>!=\<close> on two parsed values;
  \<^item> \<open>repr\<close>: \<^verbatim>\<open>str(x)\<close> for an \<open>x\<close> that is not a \<^verbatim>\<open>str\<close>;
  \<^item> \<open>int_of_str\<close>: \<^verbatim>\<open>int(s)\<close> for a \<^verbatim>\<open>str\<close>;
  \<^item> \<open>float_add\<close>: the sum of two floats, rounded as the hardware does;
  \<^item> \<open>float_of_big_int\<close>: \<^verbatim>\<open>float(n)\<close> for an integer beyond \<open>2 ^ 53\<close> in magnitude
    (rounded, or OverflowError).
\<close>

record builtins =
  lower :: "string \<Rightarrow> string"
  ne :: "json \<Rightarrow> json \<Rightarrow> bool"
  repr :: "json \<Rightarrow> string"
  int_of_str :: "string \<Rightarrow> exn + int"
  float_add :: "pyfloat \<Rightarrow> pyfloat \<Rightarrow> pyfloat"
  float_of_big_int :: "int \<Rightarrow> exn + pyfloat"

text \<open>
  A concrete interpreter for evaluating examples: lower-casing of ASCII letters, inequality of
  values as they are written, exact addition. No example reaches the other three built-ins.
\<close>

definition ascii_lower_char :: "char \<Rightarrow> char" where
  "ascii_lower_char c =
     (let n = (of_char c :: nat) in if 65 \<le> n \<and> n \<le> 90 then char_of (n + 32) else c)"

fun float_add_exact :: "pyfloat \<Rightarrow> pyfloat \<Rightarrow> pyfloat" where
  "float_add_exact (Finite a) (Finite b) = Finite (a + b)"
| "float_add_exact NaN _ = NaN"
| "float_add_exact _ NaN = NaN"
| "float_add_exact PosInf NegInf = NaN"
| "float_add_exact NegInf PosInf = NaN"
| "float_add_exact PosInf _ = PosInf"
| "float_add_exact _ PosInf = PosInf"
| "float_add_exact NegInf _ = NegInf"
| "float_add_exact _ NegInf = NegInf"

definition example_builtins :: builtins where
  "example_builtins =
     \<lparr> lower = map ascii_lower_char,
       ne = (\<lambda>a b. a \<noteq> b),
       repr = (\<lambda>_. ''?''),
       int_of_str = (\<lambda>_. Inl ValueError),
       float_add = float_add_exact,
       float_of_big_int = (\<lambda>_. Inl OverflowError) \<rparr>"

subsection \<open>Operations on values\<close>

text \<open>\<^verbatim>\<open>if x:\<close> on a parsed value.\<close>

fun truthy :: "json \<Rightarrow> bool" where
  "truthy JNull = False"
| "truthy (JBool b) = b"
| "truthy (JInt n) = (n \<noteq> 0)"
| "truthy (JFloat f) = (f \<noteq> Finite 0)"
| "truthy (JStr s) = (s \<noteq> [])"
| "truthy (JList xs) = (xs \<noteq> [])"
| "truthy (JObj kvs) = (kvs \<noteq> [])"

text \<open>\<^verbatim>\<open>d.get(key, default)\<close> on a dict.\<close>

definition dict_get :: "(string \<times> json) list \<Rightarrow> string \<Rightarrow> json \<Rightarrow> json" where
  "dict_get kvs k dflt = (case map_of kvs k of Some v \<Rightarrow> v | None \<Rightarrow> dflt)"

text \<open>\<^verbatim>\<open>x.get(key, default)\<close> on any value: only a dict has the method.\<close>

fun py_get :: "json \<Rightarrow> string \<Rightarrow> json \<Rightarrow> exn + json" where
  "py_get (JObj kvs) k dflt = Inr (dict_get kvs k dflt)"
| "py_get _ k dflt = Inl AttributeError"

text \<open>
  \<^verbatim>\<open>x[0]\<close> on any value: the first element of a list, the first character of a string,
  KeyError on a dict (the keys of a parsed object are strings), TypeError otherwise.
\<close>

fun py_index0 :: "json \<Rightarrow> exn + json" where
  "py_index0 (JList (x # xs)) = Inr x"
| "py_index0 (JList []) = Inl IndexError"
| "py_index0 (JStr (c # cs)) = Inr (JStr [c])"
| "py_index0 (JStr []) = Inl IndexError"
| "py_index0 (JObj kvs) = Inl KeyError"
| "py_index0 _ = Inl TypeError"

text \<open>\<^verbatim>\<open>c.lower()\<close> on any value, and the comprehension \<^verbatim>\<open>[c.lower() for c in cat]\<close>.\<close>

fun py_lower :: "builtins \<Rightarrow> json \<Rightarrow> exn + string" where
  "py_lower B (JStr s) = Inr (lower B s)"
| "py_lower B _ = Inl AttributeError"

fun lower_all :: "builtins \<Rightarrow> json list \<Rightarrow> exn + string list" where
  "lower_all B [] = Inr []"
| "lower_all B (c # cs) =
     (case py_lower B c of
        Inl e \<Rightarrow> Inl e
      | Inr l \<Rightarrow> (case lower_all B cs of Inl e \<Rightarrow> Inl e | Inr ls \<Rightarrow> Inr (l # ls)))"

text \<open>\<^verbatim>\<open>str(x)\<close>: a string is returned as it is.\<close>

fun py_str :: "builtins \<Rightarrow> json \<Rightarrow> string" where
  "py_str B (JStr s) = s"
| "py_str B v = repr B v"

text \<open>
  \<^verbatim>\<open>int(x)\<close> truncates a float towards zero; \<^verbatim>\<open>round(x)\<close> rounds it to the nearest integer,
  a tie to the even one. Both raise on NaN and on an infinity.
\<close>

definition py_trunc :: "rat \<Rightarrow> int" where
  "py_trunc r = (if 0 \<le> r then \<lfloor>r\<rfloor> else \<lceil>r\<rceil>)"

definition round_half_even :: "rat \<Rightarrow> int" where
  "round_half_even r =
     (let f = \<lfloor>r\<rfloor>; d = r - of_int f in
      if d < 1 / 2 then f else if 1 / 2 < d then f + 1 else if even f then f else f + 1)"

fun float_int :: "pyfloat \<Rightarrow> exn + int" where
  "float_int (Finite r) = Inr (py_trunc r)"
| "float_int NaN = Inl ValueError"
| "float_int _ = Inl OverflowError"

fun float_round :: "pyfloat \<Rightarrow> exn + int" where
  "float_round (Finite r) = Inr (round_half_even r)"
| "float_round NaN = Inl ValueError"
| "float_round _ = Inl OverflowError"

fun py_int :: "builtins \<Rightarrow> json \<Rightarrow> exn + int" where
  "py_int B (JInt n) = Inr n"
| "py_int B (JBool b) = Inr (if b then 1 else 0)"
| "py_int B (JFloat f) = float_int f"
| "py_int B (JStr s) = int_of_str B s"
| "py_int B _ = Inl TypeError"

fun py_round :: "json \<Rightarrow> exn + int" where
  "py_round (JInt n) = Inr n"
| "py_round (JBool b) = Inr (if b then 1 else 0)"
| "py_round (JFloat f) = float_round f"
| "py_round _ = Inl TypeError"

text \<open>\<^verbatim>\<open>float(n)\<close> is exact up to \<open>2 ^ 53\<close>; \<^verbatim>\<open>total += x\<close> for a float accumulator.\<close>

definition float_of_int :: "builtins \<Rightarrow> int \<Rightarrow> exn + pyfloat" where
  "float_of_int B n =
     (if \<bar>n\<bar> \<le> 2 ^ 53 then Inr (Finite (of_int n)) else float_of_big_int B n)"

fun float_iadd :: "builtins \<Rightarrow> pyfloat \<Rightarrow> json \<Rightarrow> exn + pyfloat" where
  "float_iadd B acc (JFloat f) = Inr (float_add B acc f)"
| "float_iadd B acc (JInt n) =
     (case float_of_int B n of Inl e \<Rightarrow> Inl e | Inr f \<Rightarrow> Inr (float_add B acc f))"
| "float_iadd B acc (JBool b) = Inr (float_add B acc (Finite (if b then 1 else 0)))"
| "float_iadd B acc _ = Inl TypeError"

text \<open>\<^verbatim>\<open>needle in x\<close> for a string \<open>needle\<close>: a substring test when \<open>x\<close> is a string.\<close>

fun starts_with :: "string \<Rightarrow> string \<Rightarrow> bool" where
  "starts_with [] ys = True"
| "starts_with (x # xs) [] = False"
| "starts_with (x # xs) (y # ys) = (x = y \<and> starts_with xs ys)"

fun is_substring :: "string \<Rightarrow> string \<Rightarrow> bool" where
  "is_substring xs [] = (xs = [])"
| "is_substring xs (y # ys) = (starts_with xs (y # ys) \<or> is_substring xs ys)"

fun py_contains :: "string \<Rightarrow> json \<Rightarrow> exn + bool" where
  "py_contains needle (JStr s) = Inr (is_substring needle s)"
| "py_contains needle (JList xs) = Inr (JStr needle \<in> set xs)"
| "py_contains needle (JObj kvs) = Inr (needle \<in> fst ` set kvs)"
| "py_contains needle _ = Inl TypeError"

text \<open>Decimal \<^verbatim>\<open>str(n)\<close> of a natural number, for f-strings.\<close>

definition digit_char :: "nat \<Rightarrow> char" where
  "digit_char d = ''0123456789'' ! d"

fun str_of_nat :: "nat \<Rightarrow> string" where
  "str_of_nat n =
     (if n < 10 then [digit_char n] else str_of_nat (n div 10) @ [digit_char (n mod 10)])"

declare str_of_nat.simps [simp del]

section \<open>The API client (api.py)\<close>

text \<open>
  The aiohttp session is the outside world. A request is answered by a response, or the
  session raises. Of a response the client reads the status, \<^verbatim>\<open>await resp.text()\<close> and
  \<^verbatim>\<open>await resp.json()\<close>; either read can raise as well. The world's answers are an argument
  \<open>session\<close> of every call, so that they can change from one call to the next; within one
  call they depend on the request alone.
\<close>

datatype http_verb = GET | POST

record http_request =
  verb :: http_verb
  url :: string
  headers :: "(string \<times> string) list"
  params :: "(string \<times> string) list option"
  json_payload :: "json option"

record http_response =
  status :: nat
  resp_text :: "exn + string"
  resp_json :: "exn + json"

type_synonym session = "http_request \<Rightarrow> exn + http_response"

record ActivityWatchApiClient =
  base_url :: string
  api_key :: "string option"

definition new_client :: "string \<Rightarrow> nat \<Rightarrow> string option \<Rightarrow> ActivityWatchApiClient" where
  "new_client host port key =
     \<lparr> base_url = ''http://'' @ host @ '':'' @ str_of_nat port, api_key = key \<rparr>"

definition headers_of :: "ActivityWatchApiClient \<Rightarrow> (string \<times> string) list" where
  "headers_of cl =
     [(''Accept'', ''application/json'')] @
     (case api_key cl of
        None \<Rightarrow> []
      | Some k \<Rightarrow> if k \<noteq> [] then [(''Authorization'', ''Bearer '' @ k)] else [])"

text \<open>
  \<^verbatim>\<open>except aiohttp.ClientError as err: raise ActivityWatchApiConnectionError(...)\<close> around
  the whole request: a ClientError raised by the session or by reading the response becomes
  the connection error; every other exception, the API error raised inside included, passes.
\<close>

fun except_client_error :: "ActivityWatchApiClient \<Rightarrow> exn + 'a \<Rightarrow> exn + 'a" where
  "except_client_error cl (Inl (ClientError err)) =
     Inl (ActivityWatchApiConnectionError
            (''Cannot connect to ActivityWatch at '' @ base_url cl @ '': '' @ err))"
| "except_client_error cl r = r"

definition http_error :: "http_response \<Rightarrow> string \<Rightarrow> exn + 'a" where
  "http_error resp path =
     (case resp_text resp of
        Inl e \<Rightarrow> Inl e
      | Inr body \<Rightarrow>
          Inl (ActivityWatchApiError
                 (''HTTP '' @ str_of_nat (status resp) @ '' from '' @ path @ '': '' @ body)))"

definition get_request ::
  "ActivityWatchApiClient \<Rightarrow> string \<Rightarrow> (string \<times> string) list option \<Rightarrow> http_request"
where
  "get_request cl path ps =
     \<lparr> verb = GET, url = base_url cl @ ''/api/0'' @ path, headers = headers_of cl,
       params = ps, json_payload = None \<rparr>"

definition post_request :: "ActivityWatchApiClient \<Rightarrow> string \<Rightarrow> json option \<Rightarrow> http_request" where
  "post_request cl path payload =
     \<lparr> verb = POST, url = base_url cl @ ''/api/0'' @ path, headers = headers_of cl,
       params = None, json_payload = payload \<rparr>"

definition api_get ::
  "session \<Rightarrow> ActivityWatchApiClient \<Rightarrow> string \<Rightarrow> (string \<times> string) list option \<Rightarrow> exn + json"
where
  "api_get session cl path ps =
     except_client_error cl
       (case session (get_request cl path ps) of
          Inl e \<Rightarrow> Inl e
        | Inr resp \<Rightarrow>
            if status resp \<noteq> 200 then http_error resp path else resp_json resp)"

definition api_post ::
  "session \<Rightarrow> ActivityWatchApiClient \<Rightarrow> string \<Rightarrow> json option \<Rightarrow> exn + json"
where
  "api_post session cl path payload =
     except_client_error cl
       (case session (post_request cl path payload) of
          Inl e \<Rightarrow> Inl e
        | Inr resp \<Rightarrow>
            if status resp \<notin> {200, 201} then http_error resp path else resp_json resp)"

definition async_get_info :: "session \<Rightarrow> ActivityWatchApiClient \<Rightarrow> exn + json" where
  "async_get_info session cl = api_get session cl ''/info'' None"

definition async_get_buckets :: "session \<Rightarrow> ActivityWatchApiClient \<Rightarrow> exn + json" where
  "async_get_buckets session cl = api_get session cl ''/buckets/'' None"

definition async_get_events ::
  "session \<Rightarrow> ActivityWatchApiClient \<Rightarrow> string \<Rightarrow> nat \<Rightarrow> exn + json"
where
  "async_get_events session cl bucket_id limit =
     api_get session cl (''/buckets/'' @ bucket_id @ ''/events'')
       (Some [(''limit'', str_of_nat limit)])"

definition async_query ::
  "session \<Rightarrow> ActivityWatchApiClient \<Rightarrow> string list \<Rightarrow> string list \<Rightarrow> exn + json"
where
  "async_query session cl query timeperiods =
     api_post session cl ''/query/''
       (Some (JObj [(''query'', JList (map JStr query)),
                    (''timeperiods'', JList (map JStr timeperiods))]))"

text \<open>
  \<^verbatim>\<open>[bid for bid, info in buckets.items() if bucket_type in info.get("type", "")]\<close>:
  the items in listing order, stopping at the first item that raises.
\<close>

fun matching_buckets :: "string \<Rightarrow> (string \<times> json) list \<Rightarrow> exn + string list" where
  "matching_buckets bucket_type [] = Inr []"
| "matching_buckets bucket_type ((bid, info) # items) =
     (case py_get info ''type'' (JStr '''') of
        Inl e \<Rightarrow> Inl e
      | Inr ty \<Rightarrow>
          (case py_contains bucket_type ty of
             Inl e \<Rightarrow> Inl e
           | Inr hit \<Rightarrow>
               (case matching_buckets bucket_type items of
                  Inl e \<Rightarrow> Inl e
                | Inr bids \<Rightarrow> Inr (if hit then bid # bids else bids))))"

definition async_find_buckets ::
  "session \<Rightarrow> ActivityWatchApiClient \<Rightarrow> string \<Rightarrow> exn + string list"
where
  "async_find_buckets session cl bucket_type =
     (case async_get_buckets session cl of
        Inl e \<Rightarrow> Inl e
      | Inr (JObj items) \<Rightarrow> matching_buckets bucket_type items
      | Inr _ \<Rightarrow> Inl AttributeError)"

definition async_validate_connection :: "session \<Rightarrow> ActivityWatchApiClient \<Rightarrow> exn + bool" where
  "async_validate_connection session cl =
     (case async_get_info session cl of Inl e \<Rightarrow> Inl e | Inr _ \<Rightarrow> Inr True)"

section \<open>The coordinator (coordinator.py, const.py)\<close>

definition BUCKET_WINDOW :: string where
  "BUCKET_WINDOW = ''aw-watcher-window''"

definition BUCKET_AFK :: string where
  "BUCKET_AFK = ''aw-watcher-afk''"

definition EVENT_ACTIVITY_SWITCH :: string where
  "EVENT_ACTIVITY_SWITCH = ''activitywatch_event''"

text \<open>
  \<open>data\<close> is the snapshot the update-coordinator base class of the host keeps
  (\<^verbatim>\<open>coordinator.data\<close>, read by the entities); \<open>None\<close> before the first refresh.
  \<open>previous_window_app\<close> holds whatever \<^verbatim>\<open>event_data.get("app")\<close> returned, \<open>JNull\<close> at first.
  The scan interval of the constructor only sets the timer of the host and is left out.
\<close>

record ActivityWatchData =
  window_event :: json
  afk_event :: json

record ActivityWatchCoordinator =
  client :: ActivityWatchApiClient
  device_name :: string
  window_bucket :: "string option"
  afk_bucket :: "string option"
  previous_window_app :: json
  data :: "ActivityWatchData option"

definition new_coordinator :: "ActivityWatchApiClient \<Rightarrow> string \<Rightarrow> ActivityWatchCoordinator" where
  "new_coordinator cl dev =
     \<lparr> client = cl, device_name = dev, window_bucket = None, afk_bucket = None,
       previous_window_app = JNull, data = None \<rparr>"

text \<open>An event fired on the bus of the host: its type and its payload, a dict.\<close>

record bus_event =
  event_type :: string
  event_data :: "(string \<times> json) list"

definition async_setup ::
  "session \<Rightarrow> ActivityWatchCoordinator \<Rightarrow> ActivityWatchCoordinator \<times> (exn + unit)"
where
  "async_setup session c =
     (case async_find_buckets session (client c) BUCKET_WINDOW of
        Inl e \<Rightarrow> (c, Inl e)
      | Inr window_buckets \<Rightarrow>
          (let c1 = (case window_buckets of
                       [] \<Rightarrow> c
                     | b # _ \<Rightarrow> c\<lparr>window_bucket := Some b\<rparr>)
           in case async_find_buckets session (client c) BUCKET_AFK of
                Inl e \<Rightarrow> (c1, Inl e)
              | Inr afk_buckets \<Rightarrow>
                  ((case afk_buckets of
                      [] \<Rightarrow> c1
                    | b # _ \<Rightarrow> c1\<lparr>afk_bucket := Some b\<rparr>), Inr ())))"

text \<open>
  A method of the coordinator returns the coordinator as it leaves it, the events it fired,
  and its result or the exception it raised.
\<close>

definition switch_payload ::
  "ActivityWatchCoordinator \<Rightarrow> json \<Rightarrow> json \<Rightarrow> json \<Rightarrow> bus_event"
where
  "switch_payload c current_app title u =
     \<lparr> event_type = EVENT_ACTIVITY_SWITCH,
       event_data = [(''device_id'', JStr (device_name c)),
                     (''type'', JStr ''window_switch''),
                     (''app'', current_app),
                     (''title'', title),
                     (''url'', u)] \<rparr>"

definition fire_window_switch_event ::
  "builtins \<Rightarrow> ActivityWatchCoordinator \<Rightarrow> ActivityWatchData
     \<Rightarrow> ActivityWatchCoordinator \<times> bus_event list \<times> (exn + unit)"
where
  "fire_window_switch_event B c d =
     (if window_event d = JNull then (c, [], Inr ())
      else
        case py_get (window_event d) ''data'' (JObj []) of
          Inl e \<Rightarrow> (c, [], Inl e)
        | Inr ev_data \<Rightarrow>
            (case py_get ev_data ''app'' JNull of
               Inl e \<Rightarrow> (c, [], Inl e)
             | Inr current_app \<Rightarrow>
                 if previous_window_app c = JNull then
                   (c\<lparr>previous_window_app := current_app\<rparr>, [], Inr ())
                 else if ne B current_app (previous_window_app c) then
                   (let c' = c\<lparr>previous_window_app := current_app\<rparr> in
                    case py_get ev_data ''title'' (JStr '''') of
                      Inl e \<Rightarrow> (c', [], Inl e)
                    | Inr title \<Rightarrow>
                        (case py_get ev_data ''url'' (JStr '''') of
                           Inl e \<Rightarrow> (c', [], Inl e)
                         | Inr u \<Rightarrow> (c', [switch_payload c' current_app title u], Inr ())))
                 else (c, [], Inr ())))"

text \<open>
  \<^verbatim>\<open>if bucket: events = await get_events(bucket, limit=1); if events: ... = events[0]\<close>.
  A bucket id that is \<^verbatim>\<open>None\<close> or empty skips the fetch and leaves \<^verbatim>\<open>None\<close>.
\<close>

definition latest_event ::
  "session \<Rightarrow> ActivityWatchApiClient \<Rightarrow> string option \<Rightarrow> exn + json"
where
  "latest_event session cl bucket =
     (case bucket of
        None \<Rightarrow> Inr JNull
      | Some b \<Rightarrow>
          if b = [] then Inr JNull
          else
            (case async_get_events session cl b 1 of
               Inl e \<Rightarrow> Inl e
             | Inr events \<Rightarrow> if truthy events then py_index0 events else Inr JNull))"

definition fetch_data :: "session \<Rightarrow> ActivityWatchCoordinator \<Rightarrow> exn + ActivityWatchData" where
  "fetch_data session c =
     (case latest_event session (client c) (window_bucket c) of
        Inl e \<Rightarrow> Inl e
      | Inr w \<Rightarrow>
          (case latest_event session (client c) (afk_bucket c) of
             Inl e \<Rightarrow> Inl e
           | Inr a \<Rightarrow> Inr \<lparr> window_event = w, afk_event = a \<rparr>))"

text \<open>The two \<^verbatim>\<open>except\<close> clauses of the update; the subclass is tried first.\<close>

fun update_failed :: "exn \<Rightarrow> exn" where
  "update_failed (ActivityWatchApiConnectionError m) = UpdateFailed (''Connection error: '' @ m)"
| "update_failed (ActivityWatchApiError m) = UpdateFailed (''API error: '' @ m)"
| "update_failed e = e"

definition async_update_data ::
  "builtins \<Rightarrow> session \<Rightarrow> ActivityWatchCoordinator
     \<Rightarrow> ActivityWatchCoordinator \<times> bus_event list \<times> (exn + ActivityWatchData)"
where
  "async_update_data B session c =
     (case fetch_data session c of
        Inl e \<Rightarrow> (c, [], Inl (update_failed e))
      | Inr d \<Rightarrow>
          (case fire_window_switch_event B c d of
             (c', fired, Inl e) \<Rightarrow> (c', fired, Inl e)
           | (c', fired, Inr _) \<Rightarrow> (c', fired, Inr d)))"

text \<open>
  One scheduled refresh, as the host runs it: the snapshot is replaced by what the update
  returns, and is kept when the update raises.
\<close>

definition async_refresh ::
  "builtins \<Rightarrow> session \<Rightarrow> ActivityWatchCoordinator
     \<Rightarrow> ActivityWatchCoordinator \<times> bus_event list \<times> (exn + unit)"
where
  "async_refresh B session c =
     (case async_update_data B session c of
        (c', fired, Inl e) \<Rightarrow> (c', fired, Inl e)
      | (c', fired, Inr d) \<Rightarrow> (c'\<lparr>data := Some d\<rparr>, fired, Inr ()))"

text \<open>
  A run of refreshes, one world per tick: the coordinator after the last one and every
  event fired on the way, in order.
\<close>

fun run_ticks ::
  "builtins \<Rightarrow> session list \<Rightarrow> ActivityWatchCoordinator
     \<Rightarrow> ActivityWatchCoordinator \<times> bus_event list"
where
  "run_ticks B [] c = (c, [])"
| "run_ticks B (s # ss) c =
     (case async_refresh B s c of
        (c', fired, _) \<Rightarrow> (case run_ticks B ss c' of (c'', later) \<Rightarrow> (c'', fired @ later)))"

section \<open>The entities (binary_sensor.py, sensor.py)\<close>

text \<open>
  The entities read \<^verbatim>\<open>self.coordinator.data\<close>. A property returns its value, \<open>None\<close> for
  Python's \<^verbatim>\<open>None\<close> (the state is unknown), or the exception it raised.
\<close>

definition active_is_on :: "ActivityWatchCoordinator \<Rightarrow> exn + bool option" where
  "active_is_on c =
     (case data c of
        None \<Rightarrow> Inr None
      | Some d \<Rightarrow>
          if afk_event d = JNull then Inr None
          else
            (case py_get (afk_event d) ''data'' (JObj []) of
               Inl e \<Rightarrow> Inl e
             | Inr ev_data \<Rightarrow>
                 (case py_get ev_data ''status'' (JStr '''') of
                    Inl e \<Rightarrow> Inl e
                  | Inr st \<Rightarrow> Inr (Some (st = JStr ''not-afk'')))))"

definition category_is_on ::
  "builtins \<Rightarrow> string \<Rightarrow> ActivityWatchCoordinator \<Rightarrow> exn + bool option"
where
  "category_is_on B category c =
     (case data c of
        None \<Rightarrow> Inr None
      | Some d \<Rightarrow>
          if window_event d = JNull then Inr None
          else
            (case py_get (window_event d) ''data'' (JObj []) of
               Inl e \<Rightarrow> Inl e
             | Inr ev_data \<Rightarrow>
                 (case py_get ev_data ''$category'' (JList []) of
                    Inl e \<Rightarrow> Inl e
                  | Inr (JList category_list) \<Rightarrow>
                      (case lower_all B category_list of
                         Inl e \<Rightarrow> Inl e
                       | Inr ls \<Rightarrow> Inr (Some (lower B category \<in> set ls)))
                  | Inr _ \<Rightarrow> Inr (Some False))))"

definition native_value :: "builtins \<Rightarrow> ActivityWatchCoordinator \<Rightarrow> exn + string option" where
  "native_value B c =
     (case data c of
        None \<Rightarrow> Inr None
      | Some d \<Rightarrow>
          if window_event d = JNull then Inr None
          else
            (case py_get (window_event d) ''data'' (JObj []) of
               Inl e \<Rightarrow> Inl e
             | Inr ev_data \<Rightarrow>
                 (case py_get ev_data ''$category'' JNull of
                    Inl e \<Rightarrow> Inl e
                  | Inr (JList (first # _)) \<Rightarrow> Inr (Some (py_str B first))
                  | Inr _ \<Rightarrow> Inr (Some ''Uncategorized''))))"

text \<open>The attributes are a dict; its values are evaluated in the order written.\<close>

definition extra_state_attributes ::
  "builtins \<Rightarrow> ActivityWatchCoordinator \<Rightarrow> exn + (string \<times> json) list option"
where
  "extra_state_attributes B c =
     (case data c of
        None \<Rightarrow> Inr None
      | Some d \<Rightarrow>
          if window_event d = JNull then Inr None
          else
            (case py_get (window_event d) ''data'' (JObj []) of
               Inl e \<Rightarrow> Inl e
             | Inr ev_data \<Rightarrow>
            (case py_get ev_data ''$category'' (JList []) of
               Inl e \<Rightarrow> Inl e
             | Inr category_list \<Rightarrow>
            (case py_get ev_data ''app'' (JStr '''') of
               Inl e \<Rightarrow> Inl e
             | Inr app_name \<Rightarrow>
            (case py_get ev_data ''title'' (JStr '''') of
               Inl e \<Rightarrow> Inl e
             | Inr window_title \<Rightarrow>
            (case py_get ev_data ''url'' (JStr '''') of
               Inl e \<Rightarrow> Inl e
             | Inr u \<Rightarrow>
            (case py_get (window_event d) ''duration'' (JInt 0) of
               Inl e \<Rightarrow> Inl e
             | Inr dur \<Rightarrow>
            (case py_int B dur of
               Inl e \<Rightarrow> Inl e
             | Inr secs \<Rightarrow>
                 Inr (Some [(''app_name'', app_name),
                            (''window_title'', window_title),
                            (''url'', u),
                            (''sub_categories'',
                               (case category_list of JList cs \<Rightarrow> JList cs | _ \<Rightarrow> JList [])),
                            (''duration'', JInt secs)])))))))))"

section \<open>The query_stats service (services.py)\<close>

definition CONF_DEVICE_NAME :: string where
  "CONF_DEVICE_NAME = ''device_name''"

text \<open>
  A config entry of the host with its stored data and the coordinator set up for it; the
  call's data as the schema of the service admits it; and the two strings the handler takes
  from the clock: \<^verbatim>\<open>now.isoformat()\<close> and the same for midnight of that day.
\<close>

record ConfigEntry =
  entry_data :: "(string \<times> json) list"
  runtime_data :: ActivityWatchCoordinator

record ServiceCall =
  device_id :: string
  start_time :: "string option"
  end_time :: "string option"
  category :: "string option"

record utc_clock =
  now_isoformat :: string
  midnight_isoformat :: string

fun find_client_for_device :: "ConfigEntry list \<Rightarrow> string \<Rightarrow> ActivityWatchApiClient option" where
  "find_client_for_device [] dev = None"
| "find_client_for_device (entry # entries) dev =
     (if dict_get (entry_data entry) CONF_DEVICE_NAME JNull = JStr dev
      then Some (client (runtime_data entry))
      else find_client_for_device entries dev)"

definition query_lines :: "string list" where
  "query_lines =
     [''events = query_bucket(find_bucket(\"aw-watcher-window-\"));'',
      ''events = merge_events_by_keys(events, [\"app\"]);'',
      ''RETURN = sort_by_duration(events);'']"

text \<open>
  The test that skips an event: the filter is set (a non-empty string), the event's
  \<^verbatim>\<open>$category\<close> is a list, and the lowered filter is not among its lowered entries.
\<close>

definition filtered_out :: "builtins \<Rightarrow> string option \<Rightarrow> json \<Rightarrow> exn + bool" where
  "filtered_out B category_filter event =
     (case category_filter of
        None \<Rightarrow> Inr False
      | Some f \<Rightarrow>
          if f = [] then Inr False
          else
            (case py_get event ''data'' (JObj []) of
               Inl e \<Rightarrow> Inl e
             | Inr ev_data \<Rightarrow>
                 (case py_get ev_data ''$category'' (JList []) of
                    Inl e \<Rightarrow> Inl e
                  | Inr (JList cat) \<Rightarrow>
                      (case lower_all B cat of
                         Inl e \<Rightarrow> Inl e
                       | Inr ls \<Rightarrow> Inr (lower B f \<notin> set ls))
                  | Inr _ \<Rightarrow> Inr False)))"

text \<open>The loop over the events, with its two accumulators.\<close>

fun query_stats_loop ::
  "builtins \<Rightarrow> string option \<Rightarrow> json list \<Rightarrow> json list \<Rightarrow> pyfloat \<Rightarrow> exn + json list \<times> pyfloat"
where
  "query_stats_loop B category_filter [] top_apps total_seconds = Inr (top_apps, total_seconds)"
| "query_stats_loop B category_filter (event # events) top_apps total_seconds =
     (case py_get event ''data'' (JObj []) of
        Inl e \<Rightarrow> Inl e
      | Inr ev_data \<Rightarrow>
     (case py_get ev_data ''app'' (JStr ''Unknown'') of
        Inl e \<Rightarrow> Inl e
      | Inr app_name \<Rightarrow>
     (case py_get event ''duration'' (JInt 0) of
        Inl e \<Rightarrow> Inl e
      | Inr duration \<Rightarrow>
     (case filtered_out B category_filter event of
        Inl e \<Rightarrow> Inl e
      | Inr True \<Rightarrow> query_stats_loop B category_filter events top_apps total_seconds
      | Inr False \<Rightarrow>
     (case float_iadd B total_seconds duration of
        Inl e \<Rightarrow> Inl e
      | Inr total_seconds' \<Rightarrow>
     (case py_round duration of
        Inl e \<Rightarrow> Inl e
      | Inr secs \<Rightarrow>
          query_stats_loop B category_filter events
            (top_apps @ [JObj [(''name'', app_name), (''seconds'', JInt secs)]])
            total_seconds'))))))"

text \<open>The result dict of a call that found nothing, with the \<^verbatim>\<open>error\<close> key when a message is given.\<close>

definition zero_result :: "string option \<Rightarrow> (string \<times> json) list" where
  "zero_result err =
     (case err of None \<Rightarrow> [] | Some m \<Rightarrow> [(''error'', JStr m)]) @
     [(''total_seconds'', JInt 0), (''top_apps'', JList [])]"

text \<open>\<^verbatim>\<open>isinstance(x, list)\<close>.\<close>

fun is_list :: "json \<Rightarrow> bool" where
  "is_list (JList xs) = True"
| "is_list _ = False"

text \<open>
  \<^verbatim>\<open>f"{start}/{end}"\<close>: the given start and end, or midnight of today and now when one is
  absent or empty.
\<close>

definition query_timeperiod :: "utc_clock \<Rightarrow> ServiceCall \<Rightarrow> string" where
  "query_timeperiod clock call =
     (let start = (case start_time call of
                     None \<Rightarrow> midnight_isoformat clock
                   | Some s \<Rightarrow> if s \<noteq> [] then s else midnight_isoformat clock);
          end' = (case end_time call of
                    None \<Rightarrow> now_isoformat clock
                  | Some s \<Rightarrow> if s \<noteq> [] then s else now_isoformat clock)
      in start @ ''/'' @ end')"

definition async_handle_query_stats ::
  "builtins \<Rightarrow> session \<Rightarrow> ConfigEntry list \<Rightarrow> utc_clock \<Rightarrow> ServiceCall
     \<Rightarrow> exn + (string \<times> json) list"
where
  "async_handle_query_stats B session entries clock call =
     (case find_client_for_device entries (device_id call) of
        None \<Rightarrow>
          Inr (zero_result (Some (''Device '' @ [CHR 0x27] @ device_id call @ [CHR 0x27] @ '' not found'')))
      | Some cl \<Rightarrow>
          (case async_query session cl query_lines [query_timeperiod clock call] of
             Inl (ActivityWatchApiError m) \<Rightarrow> Inr (zero_result (Some m))
           | Inl (ActivityWatchApiConnectionError m) \<Rightarrow> Inr (zero_result (Some m))
           | Inl e \<Rightarrow> Inl e
           | Inr result \<Rightarrow>
               if \<not> truthy result \<or> \<not> is_list result then Inr (zero_result None)
               else
                 (case result of
                    JList (first # _) \<Rightarrow>
                      (case query_stats_loop B (category call)
                              (case first of JList events \<Rightarrow> events | _ \<Rightarrow> [])
                              [] (Finite 0) of
                         Inl e \<Rightarrow> Inl e
                       | Inr (top_apps, total_seconds) \<Rightarrow>
                           (case float_round total_seconds of
                              Inl e \<Rightarrow> Inl e
                            | Inr secs \<Rightarrow>
                                Inr [(''total_seconds'', JInt secs),
                                     (''top_apps'', JList (take 10 top_apps))]))
                  | _ \<Rightarrow> Inr (zero_result None))))"

section \<open>Vocabulary of the properties\<close>

text \<open>
  What the properties below speak of, read off an event: a field of its \<^verbatim>\<open>data\<close> mapping
  (or a default when the field is absent), its duration, and its category list.
\<close>

definition event_field :: "string \<Rightarrow> json \<Rightarrow> json \<Rightarrow> json" where
  "event_field k dflt ev =
     (case py_get ev ''data'' (JObj []) of
        Inl _ \<Rightarrow> dflt
      | Inr x \<Rightarrow> (case py_get x k dflt of Inl _ \<Rightarrow> dflt | Inr v \<Rightarrow> v))"

definition event_app :: "json \<Rightarrow> json" where
  "event_app = event_field ''app'' JNull"

definition event_title :: "json \<Rightarrow> json" where
  "event_title = event_field ''title'' (JStr '''')"

definition event_url :: "json \<Rightarrow> json" where
  "event_url = event_field ''url'' (JStr '''')"

definition event_status :: "json \<Rightarrow> json" where
  "event_status = event_field ''status'' (JStr '''')"

definition event_category :: "json \<Rightarrow> json" where
  "event_category = event_field ''$category'' JNull"

definition event_duration :: "json \<Rightarrow> json" where
  "event_duration ev = (case py_get ev ''duration'' (JInt 0) of Inl _ \<Rightarrow> JInt 0 | Inr v \<Rightarrow> v)"

text \<open>The strings of a category list; no entries when the field is absent or not a list.\<close>

fun str_entries :: "json list \<Rightarrow> string list" where
  "str_entries [] = []"
| "str_entries (JStr s # vs) = s # str_entries vs"
| "str_entries (_ # vs) = str_entries vs"

definition category_names :: "json \<Rightarrow> string list" where
  "category_names ev = (case event_category ev of JList cs \<Rightarrow> str_entries cs | _ \<Rightarrow> [])"

fun is_str :: "json \<Rightarrow> bool" where
  "is_str (JStr s) = True"
| "is_str _ = False"

text \<open>
  An event as the data model has it: an object whose \<^verbatim>\<open>data\<close>, when present, is a mapping,
  and whose category, when it is a list, is a list of strings.
\<close>

definition has_data_mapping :: "json \<Rightarrow> bool" where
  "has_data_mapping ev =
     (case ev of
        JObj kvs \<Rightarrow> (case dict_get kvs ''data'' (JObj []) of JObj _ \<Rightarrow> True | _ \<Rightarrow> False)
      | _ \<Rightarrow> False)"

definition categories_are_strings :: "json \<Rightarrow> bool" where
  "categories_are_strings ev = (case event_category ev of JList cs \<Rightarrow> list_all is_str cs | _ \<Rightarrow> True)"

text \<open>
  A merged event of a query response: it has the \<^verbatim>\<open>app\<close> it was merged by, a finite numeric
  duration (or none), and a category list of strings (or none).
\<close>

definition finite_number :: "json \<Rightarrow> bool" where
  "finite_number v =
     (case v of
        JFloat (Finite r) \<Rightarrow> True
      | JInt n \<Rightarrow> \<bar>n\<bar> \<le> 2 ^ 53
      | JBool b \<Rightarrow> True
      | _ \<Rightarrow> False)"

definition number_value :: "json \<Rightarrow> pyfloat" where
  "number_value v =
     (case v of
        JFloat f \<Rightarrow> f
      | JInt n \<Rightarrow> Finite (of_int n)
      | JBool b \<Rightarrow> Finite (if b then 1 else 0)
      | _ \<Rightarrow> Finite 0)"

definition merged_event :: "json \<Rightarrow> bool" where
  "merged_event ev =
     (has_data_mapping ev \<and> event_app ev \<noteq> JNull \<and> finite_number (event_duration ev)
      \<and> (case event_field ''$category'' (JList []) ev of JList cs \<Rightarrow> list_all is_str cs | _ \<Rightarrow> False))"

text \<open>
  The aggregation in the words of the specification: the events kept by the category filter
  (all of them when no filter is set; a filter that is the empty string counts as not set),
  the float sum of their durations taken in order from \<open>0.0\<close>, and an event reduced to its
  name and its rounded duration.
\<close>

definition matches_category :: "builtins \<Rightarrow> string \<Rightarrow> json \<Rightarrow> bool" where
  "matches_category B f ev = (\<exists>entry \<in> set (category_names ev). lower B entry = lower B f)"

definition retained :: "builtins \<Rightarrow> string option \<Rightarrow> json list \<Rightarrow> json list" where
  "retained B category_filter events =
     (case category_filter of
        None \<Rightarrow> events
      | Some f \<Rightarrow> if f = [] then events else filter (matches_category B f) events)"

definition float_sum :: "builtins \<Rightarrow> pyfloat list \<Rightarrow> pyfloat" where
  "float_sum B fs = foldl (float_add B) (Finite 0) fs"

definition rounded_duration :: "json \<Rightarrow> int" where
  "rounded_duration ev = (case py_round (event_duration ev) of Inl _ \<Rightarrow> 0 | Inr n \<Rightarrow> n)"

definition reduced :: "json \<Rightarrow> json" where
  "reduced ev = JObj [(''name'', event_app ev), (''seconds'', JInt (rounded_duration ev))]"

text \<open>
  The first bucket of a listing whose \<^verbatim>\<open>type\<close> contains a string, and a listing entry whose
  \<^verbatim>\<open>type\<close> is a string (or absent).
\<close>

definition type_contains :: "string \<Rightarrow> json \<Rightarrow> bool" where
  "type_contains bucket_type info =
     (case py_get info ''type'' (JStr '''') of
        Inr (JStr ty) \<Rightarrow> is_substring bucket_type ty
      | _ \<Rightarrow> False)"

definition first_bucket :: "string \<Rightarrow> (string \<times> json) list \<Rightarrow> string option" where
  "first_bucket bucket_type items =
     map_option fst (find (\<lambda>item. type_contains bucket_type (snd item)) items)"

definition listed_bucket :: "json \<Rightarrow> bool" where
  "listed_bucket info =
     (case py_get info ''type'' (JStr '''') of Inr (JStr ty) \<Rightarrow> True | _ \<Rightarrow> False)"

text \<open>The notification of a window switch, as the bus receives it.\<close>

definition window_switch :: "string \<Rightarrow> json \<Rightarrow> bus_event" where
  "window_switch dev ev =
     \<lparr> event_type = ''activitywatch_event'',
       event_data = [(''device_id'', JStr dev),
                     (''type'', JStr ''window_switch''),
                     (''app'', event_app ev),
                     (''title'', event_title ev),
                     (''url'', event_url ev)] \<rparr>"

section \<open>Fixtures (tests/components/activitywatch/conftest.py)\<close>

text \<open>
  The events and the bucket listing of the test suite, a server that answers every request
  with status 200 and one JSON body, and a server that answers every request with an error
  status and a text body.
\<close>

definition MOCK_WINDOW_EVENT :: json where
  "MOCK_WINDOW_EVENT =
     JObj [(''id'', JInt 1),
           (''timestamp'', JStr ''2024-01-15T10:00:00.000000+00:00''),
           (''duration'', JFloat (Finite (241 / 2))),
           (''data'', JObj [(''app'', JStr ''Code''),
                            (''title'', JStr ''main.py - Visual Studio Code''),
                            (''url'', JStr ''''),
                            (''$category'', JList [JStr ''Work'', JStr ''Engineering''])])]"

definition MOCK_WINDOW_EVENT_2 :: json where
  "MOCK_WINDOW_EVENT_2 =
     JObj [(''id'', JInt 2),
           (''timestamp'', JStr ''2024-01-15T10:02:00.000000+00:00''),
           (''duration'', JFloat (Finite 60)),
           (''data'', JObj [(''app'', JStr ''Firefox''),
                            (''title'', JStr ''GitHub - Pull Requests''),
                            (''url'', JStr ''https://github.com''),
                            (''$category'', JList [JStr ''Work'', JStr ''Communication''])])]"

definition MOCK_WINDOW_EVENT_NO_CATEGORY :: json where
  "MOCK_WINDOW_EVENT_NO_CATEGORY =
     JObj [(''id'', JInt 3),
           (''timestamp'', JStr ''2024-01-15T10:03:00.000000+00:00''),
           (''duration'', JFloat (Finite 30)),
           (''data'', JObj [(''app'', JStr ''Notepad''),
                            (''title'', JStr ''Untitled'')])]"

definition MOCK_AFK_EVENT_ACTIVE :: json where
  "MOCK_AFK_EVENT_ACTIVE =
     JObj [(''id'', JInt 10),
           (''timestamp'', JStr ''2024-01-15T10:00:00.000000+00:00''),
           (''duration'', JFloat (Finite 300)),
           (''data'', JObj [(''status'', JStr ''not-afk'')])]"

definition MOCK_AFK_EVENT_AFK :: json where
  "MOCK_AFK_EVENT_AFK =
     JObj [(''id'', JInt 11),
           (''timestamp'', JStr ''2024-01-15T09:55:00.000000+00:00''),
           (''duration'', JFloat (Finite 600)),
           (''data'', JObj [(''status'', JStr ''afk'')])]"

definition MOCK_BUCKET_ITEMS :: "(string \<times> json) list" where
  "MOCK_BUCKET_ITEMS =
     [(''aw-watcher-window_test-hostname'',
         JObj [(''id'', JStr ''aw-watcher-window_test-hostname''),
               (''type'', JStr ''aw-watcher-window''),
               (''hostname'', JStr ''test-hostname'')]),
      (''aw-watcher-afk_test-hostname'',
         JObj [(''id'', JStr ''aw-watcher-afk_test-hostname''),
               (''type'', JStr ''aw-watcher-afk''),
               (''hostname'', JStr ''test-hostname'')])]"

definition MOCK_BUCKETS :: json where
  "MOCK_BUCKETS = JObj MOCK_BUCKET_ITEMS"

text \<open>A window event that carries a title and no \<^verbatim>\<open>app\<close>.\<close>

definition WINDOW_EVENT_NO_APP :: json where
  "WINDOW_EVENT_NO_APP =
     JObj [(''id'', JInt 4),
           (''timestamp'', JStr ''2024-01-15T10:04:00.000000+00:00''),
           (''duration'', JFloat (Finite 5)),
           (''data'', JObj [(''title'', JStr ''Desktop'')])]"

definition serving :: "json \<Rightarrow> session" where
  "serving v req = Inr \<lparr> status = 200, resp_text = Inr '''', resp_json = Inr v \<rparr>"

definition answering :: "nat \<Rightarrow> string \<Rightarrow> session" where
  "answering code body req = Inr \<lparr> status = code, resp_text = Inr body, resp_json = Inr JNull \<rparr>"

definition test_client :: ActivityWatchApiClient where
  "test_client = \<lparr> base_url = ''http://localhost:5600'', api_key = None \<rparr>"

definition test_coordinator :: ActivityWatchCoordinator where
  "test_coordinator =
     (new_coordinator test_client ''Test-PC'')
       \<lparr> window_bucket := Some ''aw-watcher-window_test-hostname'' \<rparr>"

definition tracking_coordinator :: ActivityWatchCoordinator where
  "tracking_coordinator =
     test_coordinator
       \<lparr> previous_window_app := JStr ''Code'',
         data := Some \<lparr> window_event = MOCK_WINDOW_EVENT, afk_event = JNull \<rparr> \<rparr>"

definition test_entry :: ConfigEntry where
  "test_entry =
     \<lparr> entry_data = [(''host'', JStr ''localhost''), (''port'', JInt 5600),
                     (''device_name'', JStr ''Test-PC'')],
       runtime_data = test_coordinator \<rparr>"

definition test_clock :: utc_clock where
  "test_clock =
     \<lparr> now_isoformat = ''2024-01-15T10:05:00+00:00'',
       midnight_isoformat = ''2024-01-15T00:00:00+00:00'' \<rparr>"

definition test_call :: ServiceCall where
  "test_call = \<lparr> device_id = ''Test-PC'', start_time = None, end_time = None, category = None \<rparr>"

definition refusing :: session where
  "refusing req = Inl (ClientError ''Connection refused'')"

text \<open>A coordinator whose snapshot holds the given window event and AFK event.\<close>

definition make_coordinator :: "json \<Rightarrow> json \<Rightarrow> ActivityWatchCoordinator" where
  "make_coordinator w a =
     (new_coordinator test_client ''Test-PC'') \<lparr> data := Some \<lparr> window_event = w, afk_event = a \<rparr> \<rparr>"

text \<open>
  A query response with two merged events, the first in the category Work and the second in
  the category Media, and a response that is an object instead of a list.
\<close>

definition MOCK_QUERY_RESPONSE :: json where
  "MOCK_QUERY_RESPONSE =
     JList [JList [JObj [(''duration'', JFloat (Finite (31 / 2))),
                         (''data'', JObj [(''app'', JStr ''Code''),
                                          (''$category'', JList [JStr ''Work''])])],
                   JObj [(''duration'', JFloat (Finite (5 / 2))),
                         (''data'', JObj [(''app'', JStr ''Firefox''),
                                          (''$category'', JList [JStr ''Media''])])]]]"

definition MALFORMED_QUERY_RESPONSE :: json where
  "MALFORMED_QUERY_RESPONSE = JObj [(''detail'', JStr ''unexpected'')]"

text \<open>A coordinator that has discovered the AFK bucket only and has not polled yet.\<close>

definition afk_coordinator :: ActivityWatchCoordinator where
  "afk_coordinator =
     (new_coordinator test_client ''Test-PC'')
       \<lparr> afk_bucket := Some ''aw-watcher-afk_test-hostname'' \<rparr>"

section \<open>Properties of the values\<close>

lemma py_get_Inr: "py_get v k dflt = Inr x \<Longrightarrow> \<exists>kvs. v = JObj kvs \<and> x = dict_get kvs k dflt"
  by (cases v) auto

lemma starts_with_iff: "starts_with xs ys \<longleftrightarrow> (\<exists>ss. ys = xs @ ss)"
  by (induction xs ys rule: starts_with.induct) auto

text \<open>\<open>is_substring\<close> is the substring test: the needle stands somewhere inside.\<close>

lemma is_substring_iff: "is_substring xs ys \<longleftrightarrow> (\<exists>ps ss. ys = ps @ xs @ ss)"
proof (induction ys)
  case Nil
  show ?case by auto
next
  case (Cons y ys)
  show ?case
  proof
    assume "is_substring xs (y # ys)"
    then consider "starts_with xs (y # ys)" | "is_substring xs ys" by auto
    then show "\<exists>ps ss. y # ys = ps @ xs @ ss"
    proof cases
      case 1
      then obtain ss where "y # ys = xs @ ss" by (auto simp: starts_with_iff)
      then have "y # ys = [] @ xs @ ss" by simp
      then show ?thesis by blast
    next
      case 2
      with Cons.IH obtain ps ss where "ys = ps @ xs @ ss" by auto
      then have "y # ys = (y # ps) @ xs @ ss" by simp
      then show ?thesis by blast
    qed
  next
    assume "\<exists>ps ss. y # ys = ps @ xs @ ss"
    then obtain ps ss where eq: "y # ys = ps @ xs @ ss" by auto
    show "is_substring xs (y # ys)"
    proof (cases ps)
      case Nil
      with eq have "starts_with xs (y # ys)" by (auto simp: starts_with_iff)
      then show ?thesis by simp
    next
      case (Cons p ps')
      with eq have "ys = ps' @ xs @ ss" by simp
      with Cons.IH have "is_substring xs ys" by auto
      then show ?thesis by simp
    qed
  qed
qed

text \<open>
  \<open>py_trunc\<close> is the truncation towards zero: the integer between zero and the value that is
  less than one away from it.
\<close>

lemma py_trunc_towards_zero:
  "\<bar>of_int (py_trunc r)\<bar> \<le> \<bar>r\<bar> \<and> \<bar>r - of_int (py_trunc r)\<bar> < 1"
proof (cases "0 \<le> r")
  case True
  have "of_int \<lfloor>r\<rfloor> \<le> r" and "r < of_int \<lfloor>r\<rfloor> + 1" and "(0::rat) \<le> of_int \<lfloor>r\<rfloor>"
    using True by (auto simp: floor_less_iff) linarith
  with True show ?thesis unfolding py_trunc_def by simp
next
  case False
  have "r \<le> of_int \<lceil>r\<rceil>" and "of_int \<lceil>r\<rceil> < r + 1" and "of_int \<lceil>r\<rceil> \<le> (0::rat)"
    using False by (auto simp: ceiling_le_iff) linarith
  with False show ?thesis unfolding py_trunc_def by simp
qed

section \<open>Properties of the coordinator\<close>

lemma fire_frame:
  "fire_window_switch_event B c d = (c', fired, r) \<Longrightarrow>
     client c' = client c \<and> device_name c' = device_name c \<and> window_bucket c' = window_bucket c
     \<and> afk_bucket c' = afk_bucket c \<and> data c' = data c"
  by (auto simp: fire_window_switch_event_def Let_def split: if_splits sum.splits)

text \<open>What a call that returns did, for a snapshot that holds a window event.\<close>

lemma fire_ok:
  assumes "fire_window_switch_event B c d = (c', fired, Inr u)" and "window_event d \<noteq> JNull"
  shows "(c', fired) =
         (if previous_window_app c = JNull then
            (c\<lparr>previous_window_app := event_app (window_event d)\<rparr>, [])
          else if ne B (event_app (window_event d)) (previous_window_app c) then
            (c\<lparr>previous_window_app := event_app (window_event d)\<rparr>,
             [window_switch (device_name c) (window_event d)])
          else (c, []))"
  using assms
  by (auto simp: fire_window_switch_event_def Let_def event_app_def event_title_def event_url_def
      event_field_def switch_payload_def EVENT_ACTIVITY_SWITCH_def window_switch_def
      split: if_splits sum.splits dest!: py_get_Inr)

lemma update_ok:
  "async_update_data B s c = (c', fired, Inr d) \<Longrightarrow>
     fetch_data s c = Inr d \<and> fire_window_switch_event B c d = (c', fired, Inr ())"
  by (auto simp: async_update_data_def split: sum.splits prod.splits)

lemma update_effect:
  assumes "async_update_data B s c = (c', fired, Inr d)" and "window_event d \<noteq> JNull"
  shows "(c', fired) =
         (if previous_window_app c = JNull then
            (c\<lparr>previous_window_app := event_app (window_event d)\<rparr>, [])
          else if ne B (event_app (window_event d)) (previous_window_app c) then
            (c\<lparr>previous_window_app := event_app (window_event d)\<rparr>,
             [window_switch (device_name c) (window_event d)])
          else (c, []))"
  using update_ok [OF assms(1)] fire_ok [OF _ assms(2)] by blast

lemma update_frame:
  "async_update_data B s c = (c', fired, r) \<Longrightarrow>
     client c' = client c \<and> device_name c' = device_name c \<and> window_bucket c' = window_bucket c
     \<and> afk_bucket c' = afk_bucket c \<and> data c' = data c"
  by (auto simp: async_update_data_def split: sum.splits prod.splits dest: fire_frame)

lemma update_uninitialized_silent:
  "previous_window_app c = JNull \<Longrightarrow> async_update_data B s c = (c', fired, r) \<Longrightarrow> fired = []"
  by (auto simp: async_update_data_def fire_window_switch_event_def
      split: sum.splits prod.splits if_splits)

lemma refresh_frame:
  "async_refresh B s c = (c', fired, r) \<Longrightarrow>
     window_bucket c' = window_bucket c \<and> afk_bucket c' = afk_bucket c"
  by (auto simp: async_refresh_def split: sum.splits prod.splits dest: update_frame)

lemma run_ticks_frame:
  "window_bucket (fst (run_ticks B ss c)) = window_bucket c \<and>
   afk_bucket (fst (run_ticks B ss c)) = afk_bucket c"
proof (induction ss arbitrary: c)
  case Nil
  show ?case by simp
next
  case (Cons s ss)
  obtain c' fired r where step: "async_refresh B s c = (c', fired, r)"
    by (cases "async_refresh B s c") auto
  obtain c'' later where rest: "run_ticks B ss c' = (c'', later)"
    by (cases "run_ticks B ss c'") auto
  from Cons.IH [of c'] rest
  have "window_bucket c'' = window_bucket c' \<and> afk_bucket c'' = afk_bucket c'"
    by simp
  with refresh_frame [OF step] step rest show ?case by simp
qed

lemma matching_buckets_listed:
  "list_all (\<lambda>item. listed_bucket (snd item)) items \<Longrightarrow>
     matching_buckets bucket_type items =
       Inr (map fst (filter (\<lambda>item. type_contains bucket_type (snd item)) items))"
proof (induction items)
  case Nil
  show ?case by simp
next
  case (Cons item items)
  obtain bid info where item: "item = (bid, info)" by (cases item)
  from Cons.prems item obtain ty where ty: "py_get info ''type'' (JStr '''') = Inr (JStr ty)"
    by (auto simp: listed_bucket_def split: sum.splits json.splits)
  from Cons have "matching_buckets bucket_type items =
       Inr (map fst (filter (\<lambda>item. type_contains bucket_type (snd item)) items))" by simp
  with ty item show ?case by (simp add: type_contains_def)
qed

lemma first_none: "map fst (filter P items) = [] \<Longrightarrow> map_option fst (find P items) = None"
  by (induction items) (auto split: if_splits)

lemma first_some: "map fst (filter P items) = b # bs \<Longrightarrow> map_option fst (find P items) = Some b"
  by (induction items) (auto split: if_splits)

lemma setup_selects:
  assumes "async_get_buckets session (client c0) = Inr (JObj items)"
      and "list_all (\<lambda>item. listed_bucket (snd item)) items"
  shows "async_setup session c0 =
     (c0\<lparr>window_bucket :=
            (case first_bucket BUCKET_WINDOW items of None \<Rightarrow> window_bucket c0 | Some b \<Rightarrow> Some b),
         afk_bucket :=
            (case first_bucket BUCKET_AFK items of None \<Rightarrow> afk_bucket c0 | Some b \<Rightarrow> Some b)\<rparr>,
      Inr ())"
proof -
  let ?ws = "map fst (filter (\<lambda>item. type_contains BUCKET_WINDOW (snd item)) items)"
  let ?as = "map fst (filter (\<lambda>item. type_contains BUCKET_AFK (snd item)) items)"
  have w: "async_find_buckets session (client c0) BUCKET_WINDOW = Inr ?ws"
    using assms by (simp add: async_find_buckets_def matching_buckets_listed)
  have a: "async_find_buckets session (client c0) BUCKET_AFK = Inr ?as"
    using assms by (simp add: async_find_buckets_def matching_buckets_listed)
  show ?thesis
  proof (cases ?ws)
    case wn: Nil
    show ?thesis
    proof (cases ?as)
      case Nil
      with wn w a show ?thesis
        by (simp add: async_setup_def first_bucket_def first_none)
    next
      case (Cons b bs)
      with wn w a show ?thesis
        by (simp add: async_setup_def first_bucket_def first_none first_some [OF Cons])
    qed
  next
    case wc: (Cons wb wbs)
    show ?thesis
    proof (cases ?as)
      case Nil
      with wc w a show ?thesis
        by (simp add: async_setup_def first_bucket_def first_none first_some [OF wc])
    next
      case (Cons b bs)
      with wc w a show ?thesis
        by (simp add: async_setup_def first_bucket_def first_some [OF wc] first_some [OF Cons])
    qed
  qed
qed

lemma update_fetch_raises:
  "fetch_data session c = Inl e \<Longrightarrow>
     async_update_data B session c = (c, [], Inl (update_failed e))
   \<and> async_refresh B session c = (c, [], Inl (update_failed e))"
  by (simp add: async_update_data_def async_refresh_def)

text \<open>Evaluations of the fixtures, used by the examples below.\<close>

lemma test_client_new: "test_client = new_client ''localhost'' 5600 None"
  by (simp add: test_client_def new_client_def str_of_nat.simps digit_char_def)

lemma example_ne [simp]: "ne example_builtins a b \<longleftrightarrow> a \<noteq> b"
  by (simp add: example_builtins_def)

lemma first_tick_code:
  "async_update_data example_builtins (serving (JList [MOCK_WINDOW_EVENT])) test_coordinator =
     (test_coordinator\<lparr>previous_window_app := JStr ''Code''\<rparr>, [],
      Inr \<lparr>window_event = MOCK_WINDOW_EVENT, afk_event = JNull\<rparr>)"
  by (simp add: async_update_data_def fetch_data_def latest_event_def async_get_events_def
      api_get_def serving_def test_coordinator_def new_coordinator_def test_client_def
      fire_window_switch_event_def MOCK_WINDOW_EVENT_def dict_get_def)

lemma first_tick_no_app:
  "async_update_data example_builtins (serving (JList [WINDOW_EVENT_NO_APP])) test_coordinator =
     (test_coordinator, [], Inr \<lparr>window_event = WINDOW_EVENT_NO_APP, afk_event = JNull\<rparr>)"
  by (simp add: async_update_data_def fetch_data_def latest_event_def async_get_events_def
      api_get_def serving_def test_coordinator_def new_coordinator_def test_client_def
      fire_window_switch_event_def WINDOW_EVENT_NO_APP_def dict_get_def)

lemma tick_firefox:
  "async_update_data example_builtins (serving (JList [MOCK_WINDOW_EVENT_2]))
       (test_coordinator\<lparr>previous_window_app := b\<rparr>) =
     (test_coordinator\<lparr>previous_window_app := (if b = JStr ''Firefox'' then b else JStr ''Firefox'')\<rparr>,
      (if b = JNull \<or> b = JStr ''Firefox'' then []
       else [window_switch ''Test-PC'' MOCK_WINDOW_EVENT_2]),
      Inr \<lparr>window_event = MOCK_WINDOW_EVENT_2, afk_event = JNull\<rparr>)"
  by (simp add: async_update_data_def fetch_data_def latest_event_def async_get_events_def
      api_get_def serving_def test_coordinator_def new_coordinator_def test_client_def
      fire_window_switch_event_def MOCK_WINDOW_EVENT_2_def dict_get_def
      window_switch_def switch_payload_def EVENT_ACTIVITY_SWITCH_def event_app_def event_title_def
      event_url_def event_field_def)

lemma fixture_apps:
  "event_app MOCK_WINDOW_EVENT = JStr ''Code''"
  "event_app MOCK_WINDOW_EVENT_2 = JStr ''Firefox''"
  "event_app WINDOW_EVENT_NO_APP = JNull"
  by (simp_all add: event_app_def event_field_def dict_get_def MOCK_WINDOW_EVENT_def
      MOCK_WINDOW_EVENT_2_def WINDOW_EVENT_NO_APP_def)

text \<open>
  What two consecutive ticks fire when each fetches a window event, \<open>E1\<close> then \<open>E2\<close>.
  Starting from the uninitialized coordinator the first tick fires nothing; when the app of
  \<open>E1\<close> is present (not \<^verbatim>\<open>None\<close>) and the app of \<open>E2\<close> differs from it, the two ticks fire
  exactly one notification, which carries the device name, the tag \<^verbatim>\<open>window_switch\<close> and the
  app, title and url of \<open>E2\<close>; when the two apps are equal the two ticks fire nothing. From any
  coordinator, equal apps make the second tick fire nothing, whatever else changed in the
  event (equality being transitive).
\<close>

lemma window_switch_edge_triggered:
  assumes "async_update_data B s1 c0 = (c1, f1, Inr d1)" and "window_event d1 \<noteq> JNull"
      and "async_update_data B s2 c1 = (c2, f2, Inr d2)" and "window_event d2 \<noteq> JNull"
  shows "(previous_window_app c0 = JNull \<longrightarrow> f1 = [])
       \<and> (previous_window_app c0 = JNull \<and> event_app (window_event d1) \<noteq> JNull
            \<and> ne B (event_app (window_event d2)) (event_app (window_event d1))
          \<longrightarrow> f1 @ f2 = [window_switch (device_name c0) (window_event d2)])
       \<and> (previous_window_app c0 = JNull
            \<and> \<not> ne B (event_app (window_event d2)) (event_app (window_event d1))
          \<longrightarrow> f1 @ f2 = [])
       \<and> ((\<forall>x y z. \<not> ne B x y \<longrightarrow> \<not> ne B y z \<longrightarrow> \<not> ne B x z)
            \<and> \<not> ne B (event_app (window_event d2)) (event_app (window_event d1))
          \<longrightarrow> f2 = [])"
proof -
  note e1 = update_effect [OF assms(1,2)]
  note e2 = update_effect [OF assms(3,4)]
  have p1: "previous_window_app c0 = JNull \<Longrightarrow> f1 = []"
    using e1 by simp
  have b1: "previous_window_app c0 = JNull \<Longrightarrow> previous_window_app c1 = event_app (window_event d1)"
    using e1 by simp
  have dev: "device_name c1 = device_name c0"
    using update_frame [OF assms(1)] by simp
  have p2: "f2 = [window_switch (device_name c0) (window_event d2)]"
    if "previous_window_app c0 = JNull" "event_app (window_event d1) \<noteq> JNull"
       "ne B (event_app (window_event d2)) (event_app (window_event d1))"
    using e2 b1 [OF that(1)] that(2,3) dev by simp
  have p3: "f2 = []"
    if "previous_window_app c0 = JNull"
       "\<not> ne B (event_app (window_event d2)) (event_app (window_event d1))"
    using e2 b1 [OF that(1)] that(2) by (simp split: if_splits)
  have p4: "f2 = []"
    if tr: "\<forall>x y z. \<not> ne B x y \<longrightarrow> \<not> ne B y z \<longrightarrow> \<not> ne B x z"
       and eq: "\<not> ne B (event_app (window_event d2)) (event_app (window_event d1))"
  proof (cases "previous_window_app c1 = JNull")
    case True
    with e2 show ?thesis by simp
  next
    case False
    have "\<not> ne B (event_app (window_event d2)) (previous_window_app c1)"
    proof (cases "previous_window_app c1 = event_app (window_event d1)")
      case True
      with eq show ?thesis by simp
    next
      case False
      with e1 have "previous_window_app c1 = previous_window_app c0
          \<and> \<not> ne B (event_app (window_event d1)) (previous_window_app c0)"
        by (auto split: if_splits)
      with tr eq show ?thesis by metis
    qed
    with e2 False show ?thesis by simp
  qed
  from p1 p2 p3 p4 show ?thesis by simp
qed

lemma window_switch_edge_triggered_example:
  "fst (snd (async_update_data example_builtins (serving (JList [MOCK_WINDOW_EVENT]))
               test_coordinator)) = []
   \<and> fst (snd (async_update_data example_builtins (serving (JList [MOCK_WINDOW_EVENT_2]))
               (test_coordinator\<lparr>previous_window_app := JStr ''Code''\<rparr>)))
       = [window_switch ''Test-PC'' MOCK_WINDOW_EVENT_2]
   \<and> fst (snd (async_update_data example_builtins (serving (JList [MOCK_WINDOW_EVENT_2]))
               (test_coordinator\<lparr>previous_window_app := JStr ''Firefox''\<rparr>))) = []"
proof -
  have dev: "device_name test_coordinator = ''Test-PC''"
       and un: "previous_window_app test_coordinator = JNull"
    by (simp_all add: test_coordinator_def new_coordinator_def)
  have t2: "async_update_data example_builtins (serving (JList [MOCK_WINDOW_EVENT_2]))
              (test_coordinator\<lparr>previous_window_app := JStr ''Code''\<rparr>) =
            (test_coordinator\<lparr>previous_window_app := JStr ''Firefox''\<rparr>,
             [window_switch ''Test-PC'' MOCK_WINDOW_EVENT_2],
             Inr \<lparr>window_event = MOCK_WINDOW_EVENT_2, afk_event = JNull\<rparr>)"
    by (simp add: tick_firefox)
  have t3: "async_update_data example_builtins (serving (JList [MOCK_WINDOW_EVENT_2]))
              (test_coordinator\<lparr>previous_window_app := JStr ''Firefox''\<rparr>) =
            (test_coordinator\<lparr>previous_window_app := JStr ''Firefox''\<rparr>, [],
             Inr \<lparr>window_event = MOCK_WINDOW_EVENT_2, afk_event = JNull\<rparr>)"
    by (simp add: tick_firefox)
  have w1: "window_event \<lparr>window_event = MOCK_WINDOW_EVENT, afk_event = JNull\<rparr> \<noteq> JNull"
       and w2: "window_event \<lparr>window_event = MOCK_WINDOW_EVENT_2, afk_event = JNull\<rparr> \<noteq> JNull"
    by (simp_all add: MOCK_WINDOW_EVENT_def MOCK_WINDOW_EVENT_2_def)
  have tr: "\<forall>x y z. \<not> ne example_builtins x y \<longrightarrow> \<not> ne example_builtins y z
              \<longrightarrow> \<not> ne example_builtins x z"
    by simp
  from window_switch_edge_triggered [OF first_tick_code w1 t2 w2]
       window_switch_edge_triggered [OF t2 w2 t3 w2] tr
  show ?thesis
    by (simp add: first_tick_code t2 t3 dev un fixture_apps)
qed

text \<open>
  C1. The code breaks the claim where the first event carries no \<^verbatim>\<open>app\<close>: the baseline stays
  \<^verbatim>\<open>None\<close>, which is also the mark of a coordinator that has not polled yet, so the second
  tick takes the branch written for the first poll. The second event carries the app Firefox;
  the two values differ, and the two ticks fire nothing.
\<close>

theorem window_switch_not_fired_after_event_without_app:
  "ne example_builtins (event_app MOCK_WINDOW_EVENT_2) (event_app WINDOW_EVENT_NO_APP)
   \<and> snd (run_ticks example_builtins
            [serving (JList [WINDOW_EVENT_NO_APP]), serving (JList [MOCK_WINDOW_EVENT_2])]
            test_coordinator) = []"
  by (simp add: fixture_apps async_refresh_def first_tick_no_app
      async_update_data_def fetch_data_def latest_event_def async_get_events_def
      api_get_def serving_def test_coordinator_def new_coordinator_def test_client_def
      fire_window_switch_event_def MOCK_WINDOW_EVENT_2_def WINDOW_EVENT_NO_APP_def dict_get_def
      event_app_def event_field_def)

text \<open>
  What one tick that fetches a window event does: when the stored baseline is not \<^verbatim>\<open>None\<close>
  and the event's app differs from it, the coordinator fires the notification and the
  baseline becomes the event's app, which is \<^verbatim>\<open>None\<close> when the event has none; when the
  baseline is \<^verbatim>\<open>None\<close>, the coordinator records the app and fires nothing; otherwise nothing
  is fired and the baseline stays.
\<close>

lemma baseline_follows_window_app:
  assumes "async_update_data B s c = (c', fired, Inr d)" and "window_event d \<noteq> JNull"
  shows "(previous_window_app c \<noteq> JNull \<and> ne B (event_app (window_event d)) (previous_window_app c)
          \<longrightarrow> fired = [window_switch (device_name c) (window_event d)]
              \<and> previous_window_app c' = event_app (window_event d))
       \<and> (previous_window_app c = JNull
          \<longrightarrow> fired = [] \<and> previous_window_app c' = event_app (window_event d))
       \<and> (previous_window_app c \<noteq> JNull
            \<and> \<not> ne B (event_app (window_event d)) (previous_window_app c)
          \<longrightarrow> fired = [] \<and> previous_window_app c' = previous_window_app c)"
  using update_effect [OF assms] by (auto split: if_splits)

lemma tick_no_app_tracking:
  "async_update_data example_builtins (serving (JList [WINDOW_EVENT_NO_APP]))
       (test_coordinator\<lparr>previous_window_app := JStr ''Code''\<rparr>) =
     (test_coordinator\<lparr>previous_window_app := JNull\<rparr>,
      [\<lparr> event_type = ''activitywatch_event'',
         event_data = [(''device_id'', JStr ''Test-PC''), (''type'', JStr ''window_switch''),
                       (''app'', JNull), (''title'', JStr ''Desktop''), (''url'', JStr '''')] \<rparr>],
      Inr \<lparr>window_event = WINDOW_EVENT_NO_APP, afk_event = JNull\<rparr>)"
  by (simp add: async_update_data_def fetch_data_def latest_event_def async_get_events_def
      api_get_def serving_def test_coordinator_def new_coordinator_def test_client_def
      fire_window_switch_event_def WINDOW_EVENT_NO_APP_def dict_get_def
      switch_payload_def EVENT_ACTIVITY_SWITCH_def)

lemma baseline_follows_window_app_example:
  "fst (snd (async_update_data example_builtins (serving (JList [WINDOW_EVENT_NO_APP]))
               (test_coordinator\<lparr>previous_window_app := JStr ''Code''\<rparr>)))
     = [window_switch ''Test-PC'' WINDOW_EVENT_NO_APP]
   \<and> previous_window_app
        (fst (async_update_data example_builtins (serving (JList [WINDOW_EVENT_NO_APP]))
               (test_coordinator\<lparr>previous_window_app := JStr ''Code''\<rparr>))) = JNull
   \<and> fst (snd (async_update_data example_builtins (serving (JList [MOCK_WINDOW_EVENT]))
               test_coordinator)) = []
   \<and> previous_window_app
        (fst (async_update_data example_builtins (serving (JList [MOCK_WINDOW_EVENT]))
               test_coordinator)) = JStr ''Code''"
proof -
  have dev: "device_name (test_coordinator\<lparr>previous_window_app := JStr ''Code''\<rparr>) = ''Test-PC''"
       and un: "previous_window_app test_coordinator = JNull"
    by (simp_all add: test_coordinator_def new_coordinator_def)
  have w0: "window_event \<lparr>window_event = WINDOW_EVENT_NO_APP, afk_event = JNull\<rparr> \<noteq> JNull"
       and w1: "window_event \<lparr>window_event = MOCK_WINDOW_EVENT, afk_event = JNull\<rparr> \<noteq> JNull"
    by (simp_all add: MOCK_WINDOW_EVENT_def WINDOW_EVENT_NO_APP_def)
  have ws: "window_switch ''Test-PC'' WINDOW_EVENT_NO_APP =
      \<lparr> event_type = ''activitywatch_event'',
        event_data = [(''device_id'', JStr ''Test-PC''), (''type'', JStr ''window_switch''),
                      (''app'', JNull), (''title'', JStr ''Desktop''), (''url'', JStr [])] \<rparr>"
    by (simp add: window_switch_def event_app_def event_title_def event_url_def event_field_def
        WINDOW_EVENT_NO_APP_def dict_get_def)
  from baseline_follows_window_app [OF tick_no_app_tracking w0]
       baseline_follows_window_app [OF first_tick_code w1]
  show ?thesis
    by (simp add: tick_no_app_tracking first_tick_code dev un fixture_apps ws)
qed

text \<open>
  C2. The code breaks the claim for a baseline that is \<^verbatim>\<open>None\<close>: the first successful tick
  fetches an event without \<^verbatim>\<open>app\<close> and leaves the baseline \<^verbatim>\<open>None\<close>; on the next tick the
  app Firefox differs from that baseline, the branch written for the first poll is taken, and
  nothing is fired.
\<close>

theorem none_baseline_tick_fires_nothing:
  "async_update_data example_builtins (serving (JList [WINDOW_EVENT_NO_APP])) test_coordinator =
     (test_coordinator, [], Inr \<lparr>window_event = WINDOW_EVENT_NO_APP, afk_event = JNull\<rparr>)
   \<and> previous_window_app test_coordinator = JNull
   \<and> ne example_builtins (event_app MOCK_WINDOW_EVENT_2) (previous_window_app test_coordinator)
   \<and> fst (snd (async_update_data example_builtins (serving (JList [MOCK_WINDOW_EVENT_2]))
                 test_coordinator)) = []"
proof -
  have un: "previous_window_app test_coordinator = JNull"
    by (simp add: test_coordinator_def new_coordinator_def)
  have same: "test_coordinator\<lparr>previous_window_app := JNull\<rparr> = test_coordinator"
    by (simp add: test_coordinator_def new_coordinator_def)
  from tick_firefox [of JNull] show ?thesis
    by (simp add: first_tick_no_app un same fixture_apps)
qed

text \<open>
  C9. From a listing whose entries have a string \<^verbatim>\<open>type\<close>, setup takes the first bucket
  whose type contains \<^verbatim>\<open>aw-watcher-window\<close> and the first whose type contains
  \<^verbatim>\<open>aw-watcher-afk\<close>, in listing order (an id already held stays when there is none). After
  that, and for any coordinator, no run of ticks changes either bucket id, whatever the server
  answers or fails to answer.
\<close>

theorem bucket_ids_stable:
  "(async_get_buckets session (client c0) = Inr (JObj items)
      \<and> list_all (\<lambda>item. listed_bucket (snd item)) items
    \<longrightarrow> window_bucket (fst (async_setup session c0)) =
          (case first_bucket BUCKET_WINDOW items of None \<Rightarrow> window_bucket c0 | Some b \<Rightarrow> Some b)
        \<and> afk_bucket (fst (async_setup session c0)) =
          (case first_bucket BUCKET_AFK items of None \<Rightarrow> afk_bucket c0 | Some b \<Rightarrow> Some b))
   \<and> window_bucket (fst (run_ticks B ticks c)) = window_bucket c
   \<and> afk_bucket (fst (run_ticks B ticks c)) = afk_bucket c"
  using setup_selects [of session c0 items] run_ticks_frame [of B ticks c] by auto

theorem bucket_ids_stable_witness:
  "window_bucket (fst (async_setup (serving MOCK_BUCKETS) (new_coordinator test_client ''Test-PC'')))
     = Some ''aw-watcher-window_test-hostname''
   \<and> afk_bucket (fst (async_setup (serving MOCK_BUCKETS) (new_coordinator test_client ''Test-PC'')))
     = Some ''aw-watcher-afk_test-hostname''
   \<and> window_bucket (fst (run_ticks example_builtins
         [serving (JList [MOCK_WINDOW_EVENT]), answering 404 ''no such bucket'', refusing,
          serving (JList [])]
         (fst (async_setup (serving MOCK_BUCKETS) (new_coordinator test_client ''Test-PC'')))))
     = Some ''aw-watcher-window_test-hostname''
   \<and> afk_bucket (fst (run_ticks example_builtins
         [serving (JList [MOCK_WINDOW_EVENT]), answering 404 ''no such bucket'', refusing,
          serving (JList [])]
         (fst (async_setup (serving MOCK_BUCKETS) (new_coordinator test_client ''Test-PC'')))))
     = Some ''aw-watcher-afk_test-hostname''"
proof -
  let ?c0 = "new_coordinator test_client ''Test-PC''"
  have h1: "async_get_buckets (serving MOCK_BUCKETS) (client ?c0) = Inr (JObj MOCK_BUCKET_ITEMS)"
    by (simp add: async_get_buckets_def api_get_def serving_def MOCK_BUCKETS_def)
  have h2: "list_all (\<lambda>item. listed_bucket (snd item)) MOCK_BUCKET_ITEMS"
    by (simp add: listed_bucket_def dict_get_def MOCK_BUCKET_ITEMS_def)
  have w: "first_bucket BUCKET_WINDOW MOCK_BUCKET_ITEMS = Some ''aw-watcher-window_test-hostname''"
    by (simp add: first_bucket_def type_contains_def dict_get_def BUCKET_WINDOW_def
        MOCK_BUCKET_ITEMS_def)
  have a: "first_bucket BUCKET_AFK MOCK_BUCKET_ITEMS = Some ''aw-watcher-afk_test-hostname''"
    by (simp add: first_bucket_def type_contains_def dict_get_def BUCKET_AFK_def
        MOCK_BUCKET_ITEMS_def)
  show ?thesis
    using bucket_ids_stable [of "serving MOCK_BUCKETS" ?c0 MOCK_BUCKET_ITEMS example_builtins
        "[serving (JList [MOCK_WINDOW_EVENT]), answering 404 ''no such bucket'', refusing,
          serving (JList [])]"
        "fst (async_setup (serving MOCK_BUCKETS) ?c0)"] h1 h2
    by (simp add: w a)
qed

text \<open>
  C10. A tick in which fetching the events raises the connection error or the API error (the
  window fetch, or the AFK fetch after the window fetch returned) raises UpdateFailed with the
  error's message, fires nothing and leaves the coordinator as it was: the baseline, the
  bucket ids and the cached snapshot of the previous tick.
\<close>

theorem failed_tick_atomic:
  assumes "(window_bucket c = Some b \<and> b \<noteq> [] \<and> async_get_events session (client c) b 1 = Inl e)
         \<or> (latest_event session (client c) (window_bucket c) = Inr w
            \<and> afk_bucket c = Some b \<and> b \<noteq> [] \<and> async_get_events session (client c) b 1 = Inl e)"
      and "e = ActivityWatchApiConnectionError m \<or> e = ActivityWatchApiError m"
  shows "async_update_data B session c =
           (c, [], Inl (UpdateFailed ((if e = ActivityWatchApiConnectionError m
                                       then ''Connection error: '' else ''API error: '') @ m)))
       \<and> async_refresh B session c =
           (c, [], Inl (UpdateFailed ((if e = ActivityWatchApiConnectionError m
                                       then ''Connection error: '' else ''API error: '') @ m)))"
proof -
  from assms(1) have "fetch_data session c = Inl e"
    by (auto simp: fetch_data_def latest_event_def)
  from update_fetch_raises [OF this, of B] assms(2) show ?thesis by auto
qed

theorem failed_tick_atomic_witness:
  "async_update_data example_builtins (answering 500 ''Internal Server Error'') tracking_coordinator =
     (tracking_coordinator, [],
      Inl (UpdateFailed ''API error: HTTP 500 from /buckets/aw-watcher-window_test-hostname/events: Internal Server Error''))
   \<and> async_refresh example_builtins (answering 500 ''Internal Server Error'') tracking_coordinator =
     (tracking_coordinator, [],
      Inl (UpdateFailed ''API error: HTTP 500 from /buckets/aw-watcher-window_test-hostname/events: Internal Server Error''))"
proof -
  let ?m = "''HTTP 500 from /buckets/aw-watcher-window_test-hostname/events: Internal Server Error''"
  have s: "str_of_nat 500 = ''500''" by code_simp
  have h: "(window_bucket tracking_coordinator = Some ''aw-watcher-window_test-hostname''
        \<and> ''aw-watcher-window_test-hostname'' \<noteq> []
        \<and> async_get_events (answering 500 ''Internal Server Error'') (client tracking_coordinator)
             ''aw-watcher-window_test-hostname'' 1 = Inl (ActivityWatchApiError ?m))
      \<or> (latest_event (answering 500 ''Internal Server Error'') (client tracking_coordinator)
            (window_bucket tracking_coordinator) = Inr JNull
         \<and> afk_bucket tracking_coordinator = Some ''aw-watcher-window_test-hostname''
         \<and> ''aw-watcher-window_test-hostname'' \<noteq> []
         \<and> async_get_events (answering 500 ''Internal Server Error'') (client tracking_coordinator)
             ''aw-watcher-window_test-hostname'' 1 = Inl (ActivityWatchApiError ?m))"
    by (simp add: tracking_coordinator_def test_coordinator_def new_coordinator_def
        async_get_events_def api_get_def answering_def http_error_def s)
  have k: "ActivityWatchApiError ?m = ActivityWatchApiConnectionError ?m
         \<or> ActivityWatchApiError ?m = ActivityWatchApiError ?m" by simp
  show ?thesis
    using failed_tick_atomic [OF h k, of example_builtins] by simp
qed

section \<open>Properties of the API client\<close>

text \<open>
  C5 (as amended). For a GET, a response whose status is not 200 raises the API error, whose
  message carries the status and the body; a response with status 200 returns its JSON. For a
  POST the same holds with the statuses 200 and 201. Every other status raises, the other
  statuses of the 2xx class included. A ClientError of the session (a transport failure as
  aiohttp reports it) raises the connection error, whose message carries the base URL and
  the failure.
\<close>

theorem api_error_taxonomy:
  "(session (get_request cl path ps) = Inr resp \<and> status resp \<noteq> 200 \<and> resp_text resp = Inr body
      \<longrightarrow> api_get session cl path ps =
            Inl (ActivityWatchApiError
                   (''HTTP '' @ str_of_nat (status resp) @ '' from '' @ path @ '': '' @ body)))
   \<and> (session (get_request cl path ps) = Inr resp \<and> status resp = 200 \<and> resp_json resp = Inr v
      \<longrightarrow> api_get session cl path ps = Inr v)
   \<and> (session (get_request cl path ps) = Inl (ClientError err)
      \<longrightarrow> api_get session cl path ps =
            Inl (ActivityWatchApiConnectionError
                   (''Cannot connect to ActivityWatch at '' @ base_url cl @ '': '' @ err)))
   \<and> (session (post_request cl path payload) = Inr resp \<and> status resp \<noteq> 200
        \<and> status resp \<noteq> 201 \<and> resp_text resp = Inr body
      \<longrightarrow> api_post session cl path payload =
            Inl (ActivityWatchApiError
                   (''HTTP '' @ str_of_nat (status resp) @ '' from '' @ path @ '': '' @ body)))
   \<and> (session (post_request cl path payload) = Inr resp
        \<and> (status resp = 200 \<or> status resp = 201) \<and> resp_json resp = Inr v
      \<longrightarrow> api_post session cl path payload = Inr v)
   \<and> (session (post_request cl path payload) = Inl (ClientError err)
      \<longrightarrow> api_post session cl path payload =
            Inl (ActivityWatchApiConnectionError
                   (''Cannot connect to ActivityWatch at '' @ base_url cl @ '': '' @ err)))"
  by (auto simp: api_get_def api_post_def http_error_def)

theorem api_error_taxonomy_witness:
  "api_get (answering 404 ''Not Found'') test_client ''/info'' None =
     Inl (ActivityWatchApiError ''HTTP 404 from /info: Not Found'')
   \<and> api_get (serving (JObj [(''hostname'', JStr ''test-hostname'')])) test_client ''/info'' None =
     Inr (JObj [(''hostname'', JStr ''test-hostname'')])
   \<and> api_get refusing test_client ''/info'' None =
     Inl (ActivityWatchApiConnectionError
            ''Cannot connect to ActivityWatch at http://localhost:5600: Connection refused'')
   \<and> api_post (answering 500 ''boom'') test_client ''/query/'' None =
     Inl (ActivityWatchApiError ''HTTP 500 from /query/: boom'')
   \<and> api_post (\<lambda>req. Inr \<lparr> status = 201, resp_text = Inr '''', resp_json = Inr (JList [JList []]) \<rparr>)
        test_client ''/query/'' None = Inr (JList [JList []])
   \<and> api_post refusing test_client ''/query/'' None =
     Inl (ActivityWatchApiConnectionError
            ''Cannot connect to ActivityWatch at http://localhost:5600: Connection refused'')"
proof -
  have n: "str_of_nat 404 = ''404''" "str_of_nat 500 = ''500''" by code_simp+
  let ?info = "JObj [(''hostname'', JStr ''test-hostname'')]"
  let ?created = "\<lparr> status = 201, resp_text = Inr [], resp_json = Inr (JList [JList []]) \<rparr>"
  have a: "api_get (answering 404 ''Not Found'') test_client ''/info'' None =
             Inl (ActivityWatchApiError ''HTTP 404 from /info: Not Found'')"
    using api_error_taxonomy [where session = "answering 404 ''Not Found''" and cl = test_client
         and path = "''/info''" and ps = None and body = "''Not Found''" and payload = None
         and resp = "\<lparr> status = 404, resp_text = Inr ''Not Found'', resp_json = Inr JNull \<rparr>"]
    by (simp add: answering_def n)
  have b: "api_get (serving ?info) test_client ''/info'' None = Inr ?info"
    using api_error_taxonomy [where session = "serving ?info" and cl = test_client
         and path = "''/info''" and ps = None and v = ?info and payload = None
         and resp = "\<lparr> status = 200, resp_text = Inr [], resp_json = Inr ?info \<rparr>"]
    by (simp add: serving_def)
  have c: "api_get refusing test_client ''/info'' None =
             Inl (ActivityWatchApiConnectionError
                    ''Cannot connect to ActivityWatch at http://localhost:5600: Connection refused'')"
    using api_error_taxonomy [where session = refusing and cl = test_client and path = "''/info''"
         and ps = None and payload = None and err = "''Connection refused''"]
    by (simp add: refusing_def test_client_def)
  have d: "api_post (answering 500 ''boom'') test_client ''/query/'' None =
             Inl (ActivityWatchApiError ''HTTP 500 from /query/: boom'')"
    using api_error_taxonomy [where session = "answering 500 ''boom''" and cl = test_client
         and path = "''/query/''" and payload = None and body = "''boom''" and ps = None
         and resp = "\<lparr> status = 500, resp_text = Inr ''boom'', resp_json = Inr JNull \<rparr>"]
    by (simp add: answering_def n)
  have e: "api_post (\<lambda>req. Inr ?created) test_client ''/query/'' None = Inr (JList [JList []])"
    using api_error_taxonomy [where cl = test_client and path = "''/query/''" and payload = None
         and v = "JList [JList []]" and ps = None
         and session = "\<lambda>req. Inr ?created" and resp = ?created]
    by simp
  have f: "api_post refusing test_client ''/query/'' None =
             Inl (ActivityWatchApiConnectionError
                    ''Cannot connect to ActivityWatch at http://localhost:5600: Connection refused'')"
    using api_error_taxonomy [where session = refusing and cl = test_client and path = "''/query/''"
         and ps = None and payload = None and err = "''Connection refused''"]
    by (simp add: refusing_def test_client_def)
  from a b c d e f show ?thesis by simp
qed

text \<open>
  C5 as stated fails: 201 is a status of the 2xx class, and a GET answered with it raises the
  API error.
\<close>

theorem get_raises_on_status_201:
  "api_get (answering 201 ''{}'') test_client ''/info'' None =
     Inl (ActivityWatchApiError ''HTTP 201 from /info: {}'')"
proof -
  have n: "str_of_nat 201 = ''201''" by code_simp
  show ?thesis
    by (simp add: api_get_def answering_def http_error_def n)
qed

section \<open>Properties of the entities\<close>

lemma lower_all_strings:
  "list_all is_str cs \<Longrightarrow> lower_all B cs = Inr (map (lower B) (str_entries cs))"
proof (induction cs)
  case Nil
  show ?case by simp
next
  case (Cons c cs)
  then obtain s where "c = JStr s" by (cases c) auto
  with Cons show ?case by simp
qed

lemma has_data_mappingE:
  assumes "has_data_mapping ev"
  obtains kvs x where "ev = JObj kvs" and "dict_get kvs ''data'' (JObj []) = JObj x"
  using assms by (auto simp: has_data_mapping_def split: json.splits)

text \<open>
  C6 (as amended). For a snapshot whose AFK event, when there is one, is an event of the data
  model: the presence sensor is unknown exactly when the coordinator has no snapshot or the
  current snapshot holds no AFK event, on exactly when the status of the AFK event is the
  string \<^verbatim>\<open>not-afk\<close>, and off in every other case.
\<close>

theorem active_sensor_states:
  assumes "\<forall>d. data c = Some d \<longrightarrow> afk_event d = JNull \<or> has_data_mapping (afk_event d)"
  shows "(active_is_on c = Inr None
            \<longleftrightarrow> data c = None \<or> (\<exists>d. data c = Some d \<and> afk_event d = JNull))
       \<and> (active_is_on c = Inr (Some True)
            \<longleftrightarrow> (\<exists>d. data c = Some d \<and> afk_event d \<noteq> JNull
                      \<and> event_status (afk_event d) = JStr ''not-afk''))
       \<and> (active_is_on c = Inr None \<or> active_is_on c = Inr (Some True)
            \<or> active_is_on c = Inr (Some False))"
proof (cases "data c")
  case None
  then show ?thesis by (simp add: active_is_on_def)
next
  case (Some d)
  show ?thesis
  proof (cases "afk_event d = JNull")
    case True
    with Some show ?thesis by (simp add: active_is_on_def)
  next
    case False
    with assms Some have "has_data_mapping (afk_event d)" by simp
    then obtain kvs x where "afk_event d = JObj kvs" "dict_get kvs ''data'' (JObj []) = JObj x"
      by (rule has_data_mappingE)
    with Some False show ?thesis
      by (simp add: active_is_on_def event_status_def event_field_def)
  qed
qed

theorem active_sensor_states_witness:
  "active_is_on (make_coordinator JNull MOCK_AFK_EVENT_ACTIVE) = Inr (Some True)
   \<and> active_is_on (make_coordinator JNull MOCK_AFK_EVENT_AFK) = Inr (Some False)
   \<and> active_is_on (make_coordinator MOCK_WINDOW_EVENT JNull) = Inr None
   \<and> active_is_on (new_coordinator test_client ''Test-PC'') = Inr None"
proof -
  have wf: "\<forall>d. data (make_coordinator JNull MOCK_AFK_EVENT_ACTIVE) = Some d
              \<longrightarrow> afk_event d = JNull \<or> has_data_mapping (afk_event d)"
    by (simp add: make_coordinator_def new_coordinator_def has_data_mapping_def
        MOCK_AFK_EVENT_ACTIVE_def dict_get_def)
  have on: "active_is_on (make_coordinator JNull MOCK_AFK_EVENT_ACTIVE) = Inr (Some True)"
    using active_sensor_states [OF wf]
    by (simp add: make_coordinator_def new_coordinator_def event_status_def event_field_def
        MOCK_AFK_EVENT_ACTIVE_def dict_get_def)
  have rest: "active_is_on (make_coordinator JNull MOCK_AFK_EVENT_AFK) = Inr (Some False)
      \<and> active_is_on (make_coordinator MOCK_WINDOW_EVENT JNull) = Inr None
      \<and> active_is_on (new_coordinator test_client ''Test-PC'') = Inr None"
    by (simp add: active_is_on_def make_coordinator_def new_coordinator_def
        MOCK_AFK_EVENT_AFK_def dict_get_def)
  from on rest show ?thesis by simp
qed

text \<open>
  C6 as stated fails: a tick caches an AFK event, the next tick fetches none (the server
  answers with an empty list), and the sensor is unknown again although an AFK event has been
  cached before.
\<close>

theorem active_sensor_unknown_after_cached_event:
  "data (fst (run_ticks example_builtins [serving (JList [MOCK_AFK_EVENT_ACTIVE])] afk_coordinator))
     = Some \<lparr> window_event = JNull, afk_event = MOCK_AFK_EVENT_ACTIVE \<rparr>
   \<and> active_is_on (fst (run_ticks example_builtins
                          [serving (JList [MOCK_AFK_EVENT_ACTIVE])] afk_coordinator))
     = Inr (Some True)
   \<and> active_is_on (fst (run_ticks example_builtins
                          [serving (JList [MOCK_AFK_EVENT_ACTIVE]), serving (JList [])]
                          afk_coordinator))
     = Inr None"
  by (simp add: async_refresh_def async_update_data_def fetch_data_def latest_event_def
      async_get_events_def api_get_def serving_def afk_coordinator_def new_coordinator_def
      fire_window_switch_event_def active_is_on_def MOCK_AFK_EVENT_ACTIVE_def dict_get_def)

text \<open>
  C7. For a snapshot whose window event, when there is one, is an event of the data model:
  the sensor of a category is unknown exactly when there is no snapshot or no window event; it
  is on exactly when some entry of the event's category list, at any position, has the same
  lower-case form as the category; and it is off in every other case, an empty or absent
  category list included.
\<close>

theorem category_sensor_states:
  assumes "\<forall>d. data c = Some d \<longrightarrow>
             window_event d = JNull
             \<or> (has_data_mapping (window_event d) \<and> categories_are_strings (window_event d))"
  shows "(category_is_on B cat c = Inr None
            \<longleftrightarrow> data c = None \<or> (\<exists>d. data c = Some d \<and> window_event d = JNull))
       \<and> (category_is_on B cat c = Inr (Some True)
            \<longleftrightarrow> (\<exists>d. data c = Some d \<and> window_event d \<noteq> JNull
                      \<and> (\<exists>entry \<in> set (category_names (window_event d)).
                            lower B entry = lower B cat)))
       \<and> (category_is_on B cat c = Inr None \<or> category_is_on B cat c = Inr (Some True)
            \<or> category_is_on B cat c = Inr (Some False))"
proof (cases "data c")
  case None
  then show ?thesis by (simp add: category_is_on_def)
next
  case (Some d)
  show ?thesis
  proof (cases "window_event d = JNull")
    case True
    with Some show ?thesis by (simp add: category_is_on_def)
  next
    case False
    with assms Some have wf: "has_data_mapping (window_event d)"
      and strs: "categories_are_strings (window_event d)" by simp_all
    from wf obtain kvs x where ev: "window_event d = JObj kvs"
      and x: "dict_get kvs ''data'' (JObj []) = JObj x"
      by (rule has_data_mappingE)
    show ?thesis
    proof (cases "map_of x ''$category''")
      case None
      with Some False ev x show ?thesis
        by (simp add: category_is_on_def category_names_def event_category_def event_field_def
            dict_get_def)
    next
      case (Some v)
      note v = this
      show ?thesis
      proof (cases "\<exists>cs. v = JList cs")
        case True
        then obtain cs where cs: "v = JList cs" by auto
        with strs ev x v have "list_all is_str cs"
          by (simp add: categories_are_strings_def event_category_def event_field_def dict_get_def)
        note low = lower_all_strings [OF this, of B]
        have key: "lower B cat \<in> set (map (lower B) (str_entries cs))
            \<longleftrightarrow> (\<exists>entry \<in> set (str_entries cs). lower B entry = lower B cat)"
        proof
          assume "lower B cat \<in> set (map (lower B) (str_entries cs))"
          then obtain entry where "entry \<in> set (str_entries cs)" "lower B cat = lower B entry"
            by auto
          then show "\<exists>entry \<in> set (str_entries cs). lower B entry = lower B cat"
            by (intro bexI [of _ entry]) simp_all
        next
          assume "\<exists>entry \<in> set (str_entries cs). lower B entry = lower B cat"
          then obtain entry where "entry \<in> set (str_entries cs)" "lower B entry = lower B cat"
            by auto
          then show "lower B cat \<in> set (map (lower B) (str_entries cs))"
            by (metis image_eqI set_map)
        qed
        from low key \<open>data c = Some d\<close> False ev x v cs show ?thesis
          by (simp add: category_is_on_def category_names_def event_category_def event_field_def
              dict_get_def) blast
      next
        case False
        with \<open>data c = Some d\<close> \<open>window_event d \<noteq> JNull\<close> ev x v show ?thesis
          by (cases v)
            (simp_all add: category_is_on_def category_names_def event_category_def event_field_def
              dict_get_def)
      qed
    qed
  qed
qed

lemma example_lower: "lower example_builtins = map ascii_lower_char"
  by (simp add: example_builtins_def)

theorem category_sensor_states_witness:
  "category_is_on example_builtins ''work'' (make_coordinator MOCK_WINDOW_EVENT JNull) = Inr (Some True)
   \<and> category_is_on example_builtins ''Engineering'' (make_coordinator MOCK_WINDOW_EVENT JNull)
       = Inr (Some True)
   \<and> category_is_on example_builtins ''Gaming'' (make_coordinator MOCK_WINDOW_EVENT JNull)
       = Inr (Some False)
   \<and> category_is_on example_builtins ''Work'' (make_coordinator MOCK_WINDOW_EVENT_NO_CATEGORY JNull)
       = Inr (Some False)
   \<and> category_is_on example_builtins ''Work'' (make_coordinator JNull JNull) = Inr None"
proof -
  have wf: "\<forall>d. data (make_coordinator MOCK_WINDOW_EVENT JNull) = Some d \<longrightarrow>
             window_event d = JNull
             \<or> (has_data_mapping (window_event d) \<and> categories_are_strings (window_event d))"
    by (simp add: make_coordinator_def new_coordinator_def has_data_mapping_def
        categories_are_strings_def event_category_def event_field_def
        MOCK_WINDOW_EVENT_def dict_get_def)
  have names: "category_names MOCK_WINDOW_EVENT = [''Work'', ''Engineering'']"
    by (simp add: category_names_def event_category_def event_field_def
        MOCK_WINDOW_EVENT_def dict_get_def)
  have d: "data (make_coordinator MOCK_WINDOW_EVENT JNull)
             = Some \<lparr> window_event = MOCK_WINDOW_EVENT, afk_event = JNull \<rparr>"
    by (simp add: make_coordinator_def new_coordinator_def)
  have nn: "MOCK_WINDOW_EVENT \<noteq> JNull" by (simp add: MOCK_WINDOW_EVENT_def)
  have m1: "\<exists>entry \<in> set (category_names MOCK_WINDOW_EVENT).
              lower example_builtins entry = lower example_builtins ''work''"
    unfolding names example_lower by code_simp
  have m2: "\<exists>entry \<in> set (category_names MOCK_WINDOW_EVENT).
              lower example_builtins entry = lower example_builtins ''Engineering''"
    unfolding names example_lower by code_simp
  have m3: "\<not> (\<exists>entry \<in> set (category_names MOCK_WINDOW_EVENT).
              lower example_builtins entry = lower example_builtins ''Gaming'')"
    unfolding names example_lower by code_simp
  have on: "category_is_on example_builtins ''work'' (make_coordinator MOCK_WINDOW_EVENT JNull)
              = Inr (Some True)"
    using category_sensor_states [OF wf, of example_builtins "''work''"] m1
    by (simp add: d nn)
  have on2: "category_is_on example_builtins ''Engineering'' (make_coordinator MOCK_WINDOW_EVENT JNull)
              = Inr (Some True)"
    using category_sensor_states [OF wf, of example_builtins "''Engineering''"] m2
    by (simp add: d nn)
  have off: "category_is_on example_builtins ''Gaming'' (make_coordinator MOCK_WINDOW_EVENT JNull)
              = Inr (Some False)"
    using category_sensor_states [OF wf, of example_builtins "''Gaming''"] m3
    by (auto simp: d nn)
  have rest: "category_is_on example_builtins ''Work''
                (make_coordinator MOCK_WINDOW_EVENT_NO_CATEGORY JNull) = Inr (Some False)
      \<and> category_is_on example_builtins ''Work'' (make_coordinator JNull JNull) = Inr None"
    by (simp add: category_is_on_def make_coordinator_def new_coordinator_def
        MOCK_WINDOW_EVENT_NO_CATEGORY_def dict_get_def)
  from on on2 off rest show ?thesis by simp
qed

text \<open>
  C8. For a cached window event of the data model: the value of the current-activity sensor is
  the first entry of the event's category list when that list is present and not empty (the
  entry itself when it is a string), and the string \<^verbatim>\<open>Uncategorized\<close> otherwise; and when the
  event's duration is a float, the \<^verbatim>\<open>duration\<close> attribute is that float truncated towards
  zero: the integer between zero and the float that is less than one away from it.
\<close>

theorem current_activity_value:
  assumes "data c = Some d" and "window_event d \<noteq> JNull" and "has_data_mapping (window_event d)"
  shows "(\<forall>first rest. event_category (window_event d) = JList (first # rest)
            \<longrightarrow> native_value B c = Inr (Some (py_str B first))
                \<and> (\<forall>s. first = JStr s \<longrightarrow> native_value B c = Inr (Some s)))
       \<and> ((\<forall>first rest. event_category (window_event d) \<noteq> JList (first # rest))
            \<longrightarrow> native_value B c = Inr (Some ''Uncategorized''))
       \<and> (\<forall>r. event_duration (window_event d) = JFloat (Finite r)
            \<longrightarrow> (\<exists>attrs n. extra_state_attributes B c = Inr (Some attrs)
                    \<and> map_of attrs ''duration'' = Some (JInt n)
                    \<and> n = py_trunc r
                    \<and> \<bar>of_int n\<bar> \<le> \<bar>r\<bar> \<and> \<bar>r - of_int n\<bar> < 1))"
proof -
  from assms(3) obtain kvs x where ev: "window_event d = JObj kvs"
    and x: "dict_get kvs ''data'' (JObj []) = JObj x"
    by (rule has_data_mappingE)
  have cat: "event_category (window_event d) = dict_get x ''$category'' JNull"
    using ev x by (simp add: event_category_def event_field_def)
  have p1: "native_value B c = Inr (Some (py_str B first))"
    if "event_category (window_event d) = JList (first # rest)" for first rest
  proof -
    from that cat have "dict_get x ''$category'' JNull = JList (first # rest)" by simp
    with assms(1,2) ev x show ?thesis by (simp add: native_value_def)
  qed
  have p2: "native_value B c = Inr (Some ''Uncategorized'')"
    if "\<forall>first rest. event_category (window_event d) \<noteq> JList (first # rest)"
  proof -
    from that cat have "\<forall>first rest. dict_get x ''$category'' JNull \<noteq> JList (first # rest)"
      by simp
    with assms(1,2) ev x show ?thesis
      by (simp add: native_value_def split: json.splits list.splits)
  qed
  have p3: "\<exists>attrs n. extra_state_attributes B c = Inr (Some attrs)
                    \<and> map_of attrs ''duration'' = Some (JInt n)
                    \<and> n = py_trunc r
                    \<and> \<bar>of_int n\<bar> \<le> \<bar>r\<bar> \<and> \<bar>r - of_int n\<bar> < 1"
    if "event_duration (window_event d) = JFloat (Finite r)" for r
  proof -
    from that ev have "dict_get kvs ''duration'' (JInt 0) = JFloat (Finite r)"
      by (simp add: event_duration_def)
    with assms(1,2) ev x py_trunc_towards_zero [of r] show ?thesis
      by (simp add: extra_state_attributes_def)
  qed
  from p1 p2 p3 show ?thesis by auto
qed

theorem current_activity_value_witness:
  "native_value example_builtins (make_coordinator MOCK_WINDOW_EVENT JNull) = Inr (Some ''Work'')
   \<and> native_value example_builtins (make_coordinator MOCK_WINDOW_EVENT_NO_CATEGORY JNull)
       = Inr (Some ''Uncategorized'')
   \<and> extra_state_attributes example_builtins (make_coordinator MOCK_WINDOW_EVENT JNull) =
       Inr (Some [(''app_name'', JStr ''Code''),
                  (''window_title'', JStr ''main.py - Visual Studio Code''),
                  (''url'', JStr ''''),
                  (''sub_categories'', JList [JStr ''Work'', JStr ''Engineering'']),
                  (''duration'', JInt 120)])"
proof -
  let ?c = "make_coordinator MOCK_WINDOW_EVENT JNull"
  let ?d = "\<lparr> window_event = MOCK_WINDOW_EVENT, afk_event = JNull \<rparr>"
  have d: "data ?c = Some ?d"
    by (simp add: make_coordinator_def new_coordinator_def)
  have nn: "window_event ?d \<noteq> JNull" by (simp add: MOCK_WINDOW_EVENT_def)
  have wf: "has_data_mapping (window_event ?d)"
    by (simp add: has_data_mapping_def MOCK_WINDOW_EVENT_def dict_get_def)
  have cat: "event_category (window_event ?d) = JList [JStr ''Work'', JStr ''Engineering'']"
    by (simp add: event_category_def event_field_def MOCK_WINDOW_EVENT_def dict_get_def)
  have dur: "event_duration (window_event ?d) = JFloat (Finite (241 / 2))"
    by (simp add: event_duration_def MOCK_WINDOW_EVENT_def dict_get_def)
  have tr: "py_trunc (241 / 2) = 120" by code_simp
  note inst = current_activity_value [OF d nn wf, of example_builtins]
  from inst cat have v: "native_value example_builtins ?c = Inr (Some ''Work'')"
    by simp
  from inst have "event_duration (window_event ?d) = JFloat (Finite (241 / 2)) \<longrightarrow>
      (\<exists>attrs n. extra_state_attributes example_builtins ?c = Inr (Some attrs)
                    \<and> map_of attrs ''duration'' = Some (JInt n)
                    \<and> n = py_trunc (241 / 2)
                    \<and> \<bar>of_int n\<bar> \<le> \<bar>241 / 2 :: rat\<bar> \<and> \<bar>241 / 2 - of_int n :: rat\<bar> < 1)"
    by blast
  with dur obtain attrs where
    "extra_state_attributes example_builtins ?c = Inr (Some attrs)"
    "map_of attrs ''duration'' = Some (JInt (py_trunc (241 / 2)))"
    by blast
  with tr have "extra_state_attributes example_builtins ?c = Inr (Some attrs)"
    "map_of attrs ''duration'' = Some (JInt 120)"
    by simp_all
  moreover have "\<exists>n. extra_state_attributes example_builtins ?c =
       Inr (Some [(''app_name'', JStr ''Code''),
                  (''window_title'', JStr ''main.py - Visual Studio Code''),
                  (''url'', JStr ''''),
                  (''sub_categories'', JList [JStr ''Work'', JStr ''Engineering'']),
                  (''duration'', JInt n)])"
    by (simp add: extra_state_attributes_def make_coordinator_def new_coordinator_def
        MOCK_WINDOW_EVENT_def dict_get_def)
  ultimately have a: "extra_state_attributes example_builtins ?c =
       Inr (Some [(''app_name'', JStr ''Code''),
                  (''window_title'', JStr ''main.py - Visual Studio Code''),
                  (''url'', JStr ''''),
                  (''sub_categories'', JList [JStr ''Work'', JStr ''Engineering'']),
                  (''duration'', JInt 120)])"
    by auto
  have u: "native_value example_builtins (make_coordinator MOCK_WINDOW_EVENT_NO_CATEGORY JNull)
       = Inr (Some ''Uncategorized'')"
    by (simp add: native_value_def make_coordinator_def new_coordinator_def
        MOCK_WINDOW_EVENT_NO_CATEGORY_def dict_get_def)
  from v a u show ?thesis by simp
qed

section \<open>Properties of the query_stats service\<close>

lemma round_half_even_0: "round_half_even 0 = 0"
  by (simp add: round_half_even_def)

lemma merged_eventE:
  assumes "merged_event ev"
  obtains kvs x cs where "ev = JObj kvs" and "dict_get kvs ''data'' (JObj []) = JObj x"
    and "dict_get x ''app'' (JStr ''Unknown'') = event_app ev"
    and "dict_get x ''$category'' (JList []) = JList cs" and "list_all is_str cs"
    and "category_names ev = str_entries cs"
    and "finite_number (dict_get kvs ''duration'' (JInt 0))"
    and "event_duration ev = dict_get kvs ''duration'' (JInt 0)"
proof -
  from assms have wf: "has_data_mapping ev" and app: "event_app ev \<noteq> JNull"
    and dur: "finite_number (event_duration ev)"
    and cat: "case event_field ''$category'' (JList []) ev of
                JList cs \<Rightarrow> list_all is_str cs | _ \<Rightarrow> False"
    by (simp_all add: merged_event_def)
  from wf obtain kvs x where ev: "ev = JObj kvs" and x: "dict_get kvs ''data'' (JObj []) = JObj x"
    by (rule has_data_mappingE)
  from cat ev x obtain cs where cs: "dict_get x ''$category'' (JList []) = JList cs"
    and strs: "list_all is_str cs"
    by (auto simp: event_field_def split: json.splits)
  from app ev x have a: "dict_get x ''app'' (JStr ''Unknown'') = event_app ev"
    by (auto simp: event_app_def event_field_def dict_get_def split: option.splits)
  from cs ev x have n: "category_names ev = str_entries cs"
    by (auto simp: category_names_def event_category_def event_field_def dict_get_def
        split: option.splits)
  from dur ev have d: "finite_number (dict_get kvs ''duration'' (JInt 0))"
    and d': "event_duration ev = dict_get kvs ''duration'' (JInt 0)"
    by (simp_all add: event_duration_def)
  from ev x a cs strs n d d' show thesis by (rule that)
qed

lemma finite_number_add:
  "finite_number v \<Longrightarrow> float_iadd B acc v = Inr (float_add B acc (number_value v))"
  by (cases v) (auto simp: finite_number_def number_value_def float_of_int_def split: pyfloat.splits)

lemma finite_number_round:
  "finite_number v \<Longrightarrow> \<exists>n. py_round v = Inr n"
  by (cases v) (auto simp: finite_number_def split: pyfloat.splits)

lemma merged_filtered_out:
  assumes "merged_event ev"
  shows "filtered_out B cf ev =
           Inr (case cf of None \<Rightarrow> False
                | Some f \<Rightarrow> if f = [] then False else \<not> matches_category B f ev)"
proof -
  from assms obtain kvs x cs where ev: "ev = JObj kvs"
    and x: "dict_get kvs ''data'' (JObj []) = JObj x"
    and cs: "dict_get x ''$category'' (JList []) = JList cs" and strs: "list_all is_str cs"
    and names: "category_names ev = str_entries cs"
    by (rule merged_eventE)
  have key: "lower B f \<notin> set (map (lower B) (str_entries cs)) \<longleftrightarrow> \<not> matches_category B f ev"
    for f
    unfolding matches_category_def names by (metis (no_types, lifting) image_iff list.set_map)
  show ?thesis
  proof (cases cf)
    case None
    then show ?thesis by (simp add: filtered_out_def)
  next
    case (Some f)
    with ev x cs lower_all_strings [OF strs, of B] key [of f] show ?thesis
      by (simp add: filtered_out_def)
  qed
qed

text \<open>
  The loop on merged events is the aggregation: it appends the reduced retained events, in
  order, and adds their durations to the running float sum.
\<close>

lemma query_stats_loop_merged:
  "list_all merged_event events \<Longrightarrow>
     query_stats_loop B cf events top_apps acc =
       Inr (top_apps @ map reduced (retained B cf events),
            foldl (float_add B) acc
              (map (\<lambda>ev. number_value (event_duration ev)) (retained B cf events)))"
proof (induction events arbitrary: top_apps acc)
  case Nil
  show ?case by (simp add: retained_def split: option.splits)
next
  case (Cons ev events)
  then have m: "merged_event ev" and ms: "list_all merged_event events" by simp_all
  from m obtain kvs x where ev: "ev = JObj kvs"
    and x: "dict_get kvs ''data'' (JObj []) = JObj x"
    and app: "dict_get x ''app'' (JStr ''Unknown'') = event_app ev"
    and dur: "finite_number (dict_get kvs ''duration'' (JInt 0))"
    and dur': "event_duration ev = dict_get kvs ''duration'' (JInt 0)"
    by (rule merged_eventE)
  let ?d = "dict_get kvs ''duration'' (JInt 0)"
  from finite_number_round [OF dur] obtain n where n: "py_round ?d = Inr n" by auto
  then have red: "reduced ev = JObj [(''name'', event_app ev), (''seconds'', JInt n)]"
    by (simp add: reduced_def rounded_duration_def dur')
  note IH = Cons.IH [OF ms]
  note fo = merged_filtered_out [OF m, of B cf]
  show ?case
  proof (cases "case cf of None \<Rightarrow> False
                | Some f \<Rightarrow> if f = [] then False else \<not> matches_category B f ev")
    case True
    then have drop: "retained B cf (ev # events) = retained B cf events"
      by (auto simp: retained_def split: option.splits if_splits)
    from True fo have "filtered_out B cf (JObj kvs) = Inr True" by (simp add: ev)
    with x IH [of top_apps acc] drop show ?thesis
      by (simp add: ev)
  next
    case False
    then have keep: "retained B cf (ev # events) = ev # retained B cf events"
      by (auto simp: retained_def split: option.splits if_splits)
    from False fo have "filtered_out B cf (JObj kvs) = Inr False" by (simp add: ev)
    with x app n finite_number_add [OF dur, of B acc] red dur'
      IH [of "top_apps @ [reduced ev]" "float_add B acc (number_value ?d)"] keep
    show ?thesis
      by (simp add: ev)
  qed
qed

text \<open>
  C4. For a response that is a list whose first element is a list of merged events, and a
  float sum of the retained durations that is finite: \<^verbatim>\<open>total_seconds\<close> is that sum rounded
  (a tie to the even integer), and \<^verbatim>\<open>top_apps\<close> is the first ten of the retained events in the
  order of the response, each reduced to its app and its rounded duration. The retained events
  are all of them when no category filter is set, and otherwise those with an entry in their
  category list that has the lower-case form of the filter.
\<close>

theorem query_stats_aggregation:
  assumes "find_client_for_device entries (device_id call) = Some cl"
      and "async_query session cl query_lines [query_timeperiod clock call] =
             Inr (JList (JList events # others))"
      and "list_all merged_event events"
      and "float_sum B (map (\<lambda>ev. number_value (event_duration ev))
                          (retained B (category call) events)) = Finite secs"
  shows "async_handle_query_stats B session entries clock call =
           Inr [(''total_seconds'', JInt (round_half_even secs)),
                (''top_apps'', JList (take 10 (map reduced (retained B (category call) events))))]"
  using assms query_stats_loop_merged [OF assms(3), of B "category call" "[]" "Finite 0"]
  by (simp add: async_handle_query_stats_def float_sum_def)

lemma mock_query:
  "async_query (serving MOCK_QUERY_RESPONSE) test_client query_lines [query_timeperiod test_clock c]
     = Inr MOCK_QUERY_RESPONSE"
  by (simp add: async_query_def api_post_def serving_def)

lemmas entry_fixture =
  test_entry_def CONF_DEVICE_NAME_def dict_get_def test_coordinator_def new_coordinator_def
  test_call_def

lemma mock_client:
  "device_id call = ''Test-PC'' \<Longrightarrow> find_client_for_device [test_entry] (device_id call) = Some test_client"
  by (simp add: entry_fixture)

theorem query_stats_aggregation_witness:
  "async_handle_query_stats example_builtins (serving MOCK_QUERY_RESPONSE) [test_entry] test_clock
       test_call =
     Inr [(''total_seconds'', JInt 18),
          (''top_apps'', JList [JObj [(''name'', JStr ''Code''), (''seconds'', JInt 16)],
                                JObj [(''name'', JStr ''Firefox''), (''seconds'', JInt 2)]])]
   \<and> async_handle_query_stats example_builtins (serving MOCK_QUERY_RESPONSE) [test_entry] test_clock
       (test_call\<lparr>category := Some ''work''\<rparr>) =
     Inr [(''total_seconds'', JInt 16),
          (''top_apps'', JList [JObj [(''name'', JStr ''Code''), (''seconds'', JInt 16)]])]"
proof -
  let ?events = "[JObj [(''duration'', JFloat (Finite (31 / 2))),
                         (''data'', JObj [(''app'', JStr ''Code''),
                                          (''$category'', JList [JStr ''Work''])])],
                   JObj [(''duration'', JFloat (Finite (5 / 2))),
                         (''data'', JObj [(''app'', JStr ''Firefox''),
                                          (''$category'', JList [JStr ''Media''])])]]"
  have resp: "MOCK_QUERY_RESPONSE = JList (JList ?events # [])"
    by (simp add: MOCK_QUERY_RESPONSE_def)
  have cl1: "find_client_for_device [test_entry] (device_id test_call) = Some test_client"
    and cl2: "find_client_for_device [test_entry] (device_id (test_call\<lparr>category := Some ''work''\<rparr>))
               = Some test_client"
    by (rule mock_client, simp add: test_call_def)+
  have q: "async_query (serving MOCK_QUERY_RESPONSE) test_client query_lines
             [query_timeperiod test_clock c] = Inr (JList (JList ?events # []))" for c
    using mock_query [of c] resp by simp
  have wf: "list_all merged_event ?events" by code_simp
  have s1: "float_sum example_builtins (map (\<lambda>ev. number_value (event_duration ev))
              (retained example_builtins (category test_call) ?events)) = Finite 18"
    by code_simp
  have s2: "float_sum example_builtins (map (\<lambda>ev. number_value (event_duration ev))
              (retained example_builtins (category (test_call\<lparr>category := Some ''work''\<rparr>)) ?events))
             = Finite (31 / 2)"
    by code_simp
  have r1: "take 10 (map reduced (retained example_builtins (category test_call) ?events)) =
      [JObj [(''name'', JStr ''Code''), (''seconds'', JInt 16)],
       JObj [(''name'', JStr ''Firefox''), (''seconds'', JInt 2)]]"
    by code_simp
  have r2: "take 10 (map reduced (retained example_builtins
                (category (test_call\<lparr>category := Some ''work''\<rparr>)) ?events)) =
      [JObj [(''name'', JStr ''Code''), (''seconds'', JInt 16)]]"
    by code_simp
  have n: "round_half_even 18 = 18" "round_half_even (31 / 2) = 16" by code_simp+
  from query_stats_aggregation [OF cl1 q wf s1] query_stats_aggregation [OF cl2 q wf s2]
  show ?thesis
    by (simp only: r1 r2 n)
qed

text \<open>
  C3 (as amended). A call for a device that no entry carries returns the zero result with an
  error string; so does a call whose query raises the API error or the connection error, the
  error string being the message of the exception. A response that is falsy or not a list
  returns the zero result without an error string, and so does a list whose first element is
  not a list.
\<close>

theorem query_stats_failure_results:
  "(find_client_for_device entries (device_id call) = None
      \<longrightarrow> async_handle_query_stats B session entries clock call =
            Inr [(''error'', JStr (''Device '' @ [CHR 0x27] @ device_id call @ [CHR 0x27] @ '' not found'')),
                 (''total_seconds'', JInt 0), (''top_apps'', JList [])])
   \<and> (find_client_for_device entries (device_id call) = Some cl
        \<and> (async_query session cl query_lines [query_timeperiod clock call]
              = Inl (ActivityWatchApiError m)
           \<or> async_query session cl query_lines [query_timeperiod clock call]
              = Inl (ActivityWatchApiConnectionError m))
      \<longrightarrow> async_handle_query_stats B session entries clock call =
            Inr [(''error'', JStr m), (''total_seconds'', JInt 0), (''top_apps'', JList [])])
   \<and> (find_client_for_device entries (device_id call) = Some cl
        \<and> async_query session cl query_lines [query_timeperiod clock call] = Inr result
        \<and> (\<not> truthy result \<or> \<not> is_list result)
      \<longrightarrow> async_handle_query_stats B session entries clock call =
            Inr [(''total_seconds'', JInt 0), (''top_apps'', JList [])])
   \<and> (find_client_for_device entries (device_id call) = Some cl
        \<and> async_query session cl query_lines [query_timeperiod clock call]
             = Inr (JList (first # others))
        \<and> \<not> is_list first
      \<longrightarrow> async_handle_query_stats B session entries clock call =
            Inr [(''total_seconds'', JInt 0), (''top_apps'', JList [])])"
proof -
  have not_list: "(case first of JList events \<Rightarrow> events | _ \<Rightarrow> []) = []" if "\<not> is_list first"
    using that by (cases first) simp_all
  show ?thesis
    by (auto simp: async_handle_query_stats_def zero_result_def not_list round_half_even_0)
qed

theorem query_stats_failure_results_witness:
  "async_handle_query_stats example_builtins (serving MOCK_QUERY_RESPONSE) [test_entry] test_clock
       (test_call\<lparr>device_id := ''Laptop''\<rparr>) =
     Inr [(''error'', JStr (''Device '' @ [CHR 0x27] @ ''Laptop'' @ [CHR 0x27] @ '' not found'')),
          (''total_seconds'', JInt 0), (''top_apps'', JList [])]
   \<and> async_handle_query_stats example_builtins (answering 500 ''boom'') [test_entry] test_clock
       test_call =
     Inr [(''error'', JStr ''HTTP 500 from /query/: boom''),
          (''total_seconds'', JInt 0), (''top_apps'', JList [])]
   \<and> async_handle_query_stats example_builtins refusing [test_entry] test_clock test_call =
     Inr [(''error'', JStr ''Cannot connect to ActivityWatch at http://localhost:5600: Connection refused''),
          (''total_seconds'', JInt 0), (''top_apps'', JList [])]
   \<and> async_handle_query_stats example_builtins (serving (JList [])) [test_entry] test_clock test_call =
     Inr [(''total_seconds'', JInt 0), (''top_apps'', JList [])]
   \<and> async_handle_query_stats example_builtins (serving (JList [JNull])) [test_entry] test_clock
       test_call =
     Inr [(''total_seconds'', JInt 0), (''top_apps'', JList [])]"
proof -
  have n: "str_of_nat 500 = ''500''" by code_simp
  have dev: "device_id test_call = ''Test-PC''" by (simp add: test_call_def)
  have none: "find_client_for_device [test_entry] (device_id (test_call\<lparr>device_id := ''Laptop''\<rparr>))
                = None"
    by (simp add: entry_fixture)
  have some: "find_client_for_device [test_entry] (device_id test_call) = Some test_client"
    by (rule mock_client) (rule dev)
  have q500: "async_query (answering 500 ''boom'') test_client query_lines
                [query_timeperiod test_clock test_call]
              = Inl (ActivityWatchApiError ''HTTP 500 from /query/: boom'')"
    by (simp add: async_query_def api_post_def answering_def http_error_def n)
  have qref: "async_query refusing test_client query_lines [query_timeperiod test_clock test_call]
              = Inl (ActivityWatchApiConnectionError
                  ''Cannot connect to ActivityWatch at http://localhost:5600: Connection refused'')"
    by (simp add: async_query_def api_post_def refusing_def test_client_def)
  have qv: "async_query (serving v) test_client query_lines [query_timeperiod test_clock test_call]
              = Inr v" for v
    by (simp add: async_query_def api_post_def serving_def)
  have a: "async_handle_query_stats example_builtins (serving MOCK_QUERY_RESPONSE) [test_entry]
             test_clock (test_call\<lparr>device_id := ''Laptop''\<rparr>) =
           Inr [(''error'', JStr (''Device '' @ [CHR 0x27] @ ''Laptop'' @ [CHR 0x27] @ '' not found'')),
                (''total_seconds'', JInt 0), (''top_apps'', JList [])]"
    using query_stats_failure_results [where entries = "[test_entry]"
        and call = "test_call\<lparr>device_id := ''Laptop''\<rparr>" and B = example_builtins
        and session = "serving MOCK_QUERY_RESPONSE" and clock = test_clock and cl = test_client
        and m = "[]" and result = JNull and first = JNull and others = "[]"] none
    by simp
  have b: "async_handle_query_stats example_builtins (answering 500 ''boom'') [test_entry] test_clock
             test_call =
           Inr [(''error'', JStr ''HTTP 500 from /query/: boom''),
                (''total_seconds'', JInt 0), (''top_apps'', JList [])]"
    using query_stats_failure_results [where entries = "[test_entry]" and call = test_call
        and B = example_builtins and session = "answering 500 ''boom''" and clock = test_clock
        and cl = test_client and m = "''HTTP 500 from /query/: boom''" and result = JNull
        and first = JNull and others = "[]"] some q500
    by simp
  have c: "async_handle_query_stats example_builtins refusing [test_entry] test_clock test_call =
           Inr [(''error'', JStr ''Cannot connect to ActivityWatch at http://localhost:5600: Connection refused''),
                (''total_seconds'', JInt 0), (''top_apps'', JList [])]"
    using query_stats_failure_results [where entries = "[test_entry]" and call = test_call
        and B = example_builtins and session = refusing and clock = test_clock
        and cl = test_client
        and m = "''Cannot connect to ActivityWatch at http://localhost:5600: Connection refused''"
        and result = JNull and first = JNull and others = "[]"] some qref
    by simp
  have d: "async_handle_query_stats example_builtins (serving (JList [])) [test_entry] test_clock
             test_call = Inr [(''total_seconds'', JInt 0), (''top_apps'', JList [])]"
    using query_stats_failure_results [where entries = "[test_entry]" and call = test_call
        and B = example_builtins and session = "serving (JList [])" and clock = test_clock
        and cl = test_client and m = "[]" and result = "JList []"
        and first = JNull and others = "[]"] some qv [of "JList []"]
    by simp
  have e: "async_handle_query_stats example_builtins (serving (JList [JNull])) [test_entry]
             test_clock test_call = Inr [(''total_seconds'', JInt 0), (''top_apps'', JList [])]"
    using query_stats_failure_results [where entries = "[test_entry]" and call = test_call
        and B = example_builtins and session = "serving (JList [JNull])" and clock = test_clock
        and cl = test_client and m = "[]" and result = JNull
        and first = JNull and others = "[]"] some qv [of "JList [JNull]"]
    by simp
  from a b c d e show ?thesis by simp
qed

text \<open>
  C3 as stated fails: the server answers the query with an object instead of a list, and the
  result of the handler has no \<^verbatim>\<open>error\<close> key.
\<close>

theorem query_stats_malformed_response_has_no_error:
  "async_handle_query_stats example_builtins (serving MALFORMED_QUERY_RESPONSE) [test_entry]
       test_clock test_call =
     Inr [(''total_seconds'', JInt 0), (''top_apps'', JList [])]"
  by (simp add: async_handle_query_stats_def entry_fixture async_query_def
      api_post_def serving_def MALFORMED_QUERY_RESPONSE_def zero_result_def)

text \<open>
  Beyond that, an event of the response that is not an object makes the handler raise: the
  loop calls \<^verbatim>\<open>event.get\<close> on it.
\<close>

lemma query_stats_raises_on_event_that_is_no_object:
  "async_handle_query_stats example_builtins (serving (JList [JList [JInt 1]])) [test_entry]
       test_clock test_call = Inl AttributeError"
  by (simp add: async_handle_query_stats_def entry_fixture async_query_def
      api_post_def serving_def)

end
